theory Spec2Isabelle
  imports Main
begin

section \<open>Values of the Go program\<close>

text \<open>
  A Go \<^verbatim>\<open>error\<close> is a value; \<^verbatim>\<open>nil\<close> is \<open>None\<close> of \<open>'e error option\<close>.
  The package builds its errors in three ways:
  \<^item> it receives one from a collaborator (\<^verbatim>\<open>fs.Glob\<close>, \<^verbatim>\<open>ParseFS\<close>,
    \<^verbatim>\<open>ExecuteTemplate\<close>, \<^verbatim>\<open>echo.Context.NoContent\<close>): \<open>Collab e\<close>;
  \<^item> \<^verbatim>\<open>fmt.Errorf("template: pattern matches no files: %#q", pattern)\<close>:
    \<open>NoFiles pattern\<close>;
  \<^item> \<^verbatim>\<open>errors.Wrap(err, msg)\<close> and \<^verbatim>\<open>errors.Wrapf(err, "... %s", f)\<close>:
    \<open>Wrap err msg\<close>, with the formatted message.
\<close>

datatype 'e error = Collab 'e | NoFiles string | Wrap "'e error" string

text \<open>
  \<^verbatim>\<open>path.Base\<close> of the Go standard library: the empty path gives \<^verbatim>\<open>"."\<close>,
  trailing slashes are stripped, the text after the last slash is kept, and a path of
  slashes only gives \<^verbatim>\<open>"/"\<close>.
\<close>

definition stripTrailingSlashes :: "string \<Rightarrow> string" where
  "stripTrailingSlashes p = rev (dropWhile (\<lambda>c. c = CHR ''/'') (rev p))"

definition lastElement :: "string \<Rightarrow> string" where
  "lastElement p = rev (takeWhile (\<lambda>c. c \<noteq> CHR ''/'') (rev p))"

definition path_Base :: "string \<Rightarrow> string" where
  "path_Base p =
     (if p = [] then ''.''
      else (let b = lastElement (stripTrailingSlashes p)
            in if b = [] then ''/'' else b))"

text \<open>\<^verbatim>\<open>http.StatusInternalServerError\<close>.\<close>

definition StatusInternalServerError :: nat where
  "StatusInternalServerError = 500"

subsection \<open>The default template functions\<close>

text \<open>
  \<^verbatim>\<open>time.Now()\<close> is an input of the program: the reading of the wall clock. The
  layout \<^verbatim>\<open>"15:04:05"\<close> of \<^verbatim>\<open>Format\<close> prints hour, minute and second with two
  digits each.
\<close>

record wallclock =
  Hour :: nat
  Minute :: nat
  Second :: nat

definition twoDigits :: "nat \<Rightarrow> string" where
  "twoDigits n = [''0123456789'' ! (n div 10 mod 10), ''0123456789'' ! (n mod 10)]"

definition getTime :: "wallclock \<Rightarrow> string" where
  "getTime now = twoDigits (Hour now) @ '':'' @ twoDigits (Minute now) @ '':'' @ twoDigits (Second now)"

definition defaultTemplateFuncs :: "string \<rightharpoonup> (wallclock \<Rightarrow> string)" where
  "defaultTemplateFuncs = [''getTime'' \<mapsto> getTime]"

section \<open>Data model\<close>

text \<open>
  \<^verbatim>\<open>Template\<close> stores the meta data of one template; \<open>'tmpl\<close> is the engine's
  compiled \<^verbatim>\<open>*template.Template\<close>. \<^verbatim>\<open>TemplateRenderer\<close> is the registry: the
  map of units and the \<^verbatim>\<open>template.FuncMap\<close>, whose values have type \<open>'fn\<close>.
  A value of this type is the registry as one call of a method finds it: the units and
  the contents that the function map has at that time. The Go struct holds the function
  map by reference; the caller's side of that reference is modelled after the
  operations. The map of units is the one that \<^verbatim>\<open>New\<close> and
  \<^verbatim>\<open>NewWithTemplateFuncs\<close> allocate; the zero value of the struct, whose map is
  \<^verbatim>\<open>nil\<close>, is not a value of this type.
\<close>

record 'tmpl Template =
  layout :: string
  name :: string
  template :: 'tmpl

record ('fn, 'tmpl) TemplateRenderer =
  templates :: "string \<rightharpoonup> 'tmpl Template"
  templateFuncs :: "string \<rightharpoonup> 'fn"

text \<open>
  The collaborators the package calls, as parameters of the model:
  \<^item> \<open>Glob fsys pattern\<close> is \<^verbatim>\<open>fs.Glob(fsys, pattern)\<close>;
  \<^item> \<open>ParseFS funcs tname fsys patterns\<close> is
    \<^verbatim>\<open>template.New(tname).Funcs(funcs).ParseFS(fsys, patterns...)\<close>;
  \<^item> \<open>ExecuteTemplate tmpl execName data now\<close> is
    \<^verbatim>\<open>tmpl.ExecuteTemplate(w, execName, data)\<close>: the bytes it writes to \<^verbatim>\<open>w\<close>
    and its error. The execution runs the functions of the \<^verbatim>\<open>FuncMap\<close> and the
    methods of the data, which are code of the caller; \<open>now\<close> is the state outside the
    registry that this code reads at the time of the call: the clock, and whatever else
    it keeps, such as a counter. Each call is given the state it finds, so a statement
    for all states holds for every sequence of calls;
  \<^item> \<open>NoContent c code\<close> is \<^verbatim>\<open>c.NoContent(code)\<close> of the \<^verbatim>\<open>echo.Context\<close>: the
    context after the call and the error returned.
  Calls of the logger have no effect on any value below and are left out.
\<close>

record ('fs, 'fn, 'tmpl, 'data, 'clk, 'ctx, 'e) collaborators =
  Glob :: "'fs \<Rightarrow> string \<Rightarrow> 'e + string list"
  ParseFS :: "(string \<rightharpoonup> 'fn) \<Rightarrow> string \<Rightarrow> 'fs \<Rightarrow> string list \<Rightarrow> 'e + 'tmpl"
  ExecuteTemplate :: "'tmpl \<Rightarrow> string \<Rightarrow> 'data \<Rightarrow> 'clk \<Rightarrow> string \<times> 'e option"
  NoContent :: "'ctx \<Rightarrow> nat \<Rightarrow> 'ctx \<times> 'e option"

section \<open>Operations\<close>

text \<open>
  The constructors. \<^verbatim>\<open>New\<close> takes the package variable
  \<^verbatim>\<open>defaultTemplateFuncs\<close>, which no code outside the package can reach and no code
  of the package writes. \<open>NewWithTemplateFuncs funcs\<close> is the registry as the call
  returns it, where \<open>funcs\<close> is what the supplied map contains at that time.
\<close>

definition New :: "(wallclock \<Rightarrow> string, 'tmpl) TemplateRenderer" where
  "New = \<lparr>templates = Map.empty, templateFuncs = defaultTemplateFuncs\<rparr>"

definition NewWithTemplateFuncs :: "(string \<rightharpoonup> 'fn) \<Rightarrow> ('fn, 'tmpl) TemplateRenderer" where
  "NewWithTemplateFuncs funcs = \<lparr>templates = Map.empty, templateFuncs = funcs\<rparr>"

text \<open>
  \<^verbatim>\<open>readFileNames\<close>: the loop over the patterns, with the slice \<^verbatim>\<open>filenames\<close>
  collected so far.
\<close>

fun readFileNames_loop ::
  "('fs, 'fn, 'tmpl, 'data, 'clk, 'ctx, 'e) collaborators \<Rightarrow> 'fs \<Rightarrow> string list \<Rightarrow> string list
     \<Rightarrow> 'e error + string list" where
  "readFileNames_loop env fsys filenames [] = Inr filenames"
| "readFileNames_loop env fsys filenames (pattern # patterns) =
     (case Glob env fsys pattern of
        Inl err \<Rightarrow> Inl (Wrap (Collab err) ''failed to list using file pattern'')
      | Inr list \<Rightarrow>
          if length list = 0 then Inl (NoFiles pattern)
          else readFileNames_loop env fsys (filenames @ list) patterns)"

definition readFileNames ::
  "('fs, 'fn, 'tmpl, 'data, 'clk, 'ctx, 'e) collaborators \<Rightarrow> 'fs \<Rightarrow> string list
     \<Rightarrow> 'e error + string list" where
  "readFileNames env fsys patterns = readFileNames_loop env fsys [] patterns"

text \<open>
  The three registration methods. Each returns the registry after the call and the
  error (\<open>None\<close> is \<^verbatim>\<open>nil\<close>); the loop over \<^verbatim>\<open>filenames\<close> returns on the first
  file that fails to parse and keeps what it stored before.
\<close>

fun AddWithLayout_loop ::
  "('fs, 'fn, 'tmpl, 'data, 'clk, 'ctx, 'e) collaborators \<Rightarrow> ('fn, 'tmpl) TemplateRenderer \<Rightarrow> 'fs
     \<Rightarrow> string \<Rightarrow> string list \<Rightarrow> ('fn, 'tmpl) TemplateRenderer \<times> 'e error option" where
  "AddWithLayout_loop env t fsys lay [] = (t, None)"
| "AddWithLayout_loop env t fsys lay (f # fs) =
     (let tname = path_Base f; lname = path_Base lay
      in case ParseFS env (templateFuncs t) tname fsys [lay, f] of
           Inl err \<Rightarrow> (t, Some (Wrap (Collab err) (''failed to parse template '' @ f)))
         | Inr tmp \<Rightarrow>
             AddWithLayout_loop env
               (t\<lparr>templates := (templates t)(tname \<mapsto> \<lparr>layout = lname, name = tname, template = tmp\<rparr>)\<rparr>)
               fsys lay fs)"

definition AddWithLayout ::
  "('fs, 'fn, 'tmpl, 'data, 'clk, 'ctx, 'e) collaborators \<Rightarrow> ('fn, 'tmpl) TemplateRenderer \<Rightarrow> 'fs
     \<Rightarrow> string \<Rightarrow> string list \<Rightarrow> ('fn, 'tmpl) TemplateRenderer \<times> 'e error option" where
  "AddWithLayout env t fsys lay patterns =
     (case readFileNames env fsys patterns of
        Inl err \<Rightarrow> (t, Some (Wrap err ''failed to list using file pattern''))
      | Inr filenames \<Rightarrow> AddWithLayout_loop env t fsys lay filenames)"

fun AddWithLayoutAndIncludes_loop ::
  "('fs, 'fn, 'tmpl, 'data, 'clk, 'ctx, 'e) collaborators \<Rightarrow> ('fn, 'tmpl) TemplateRenderer \<Rightarrow> 'fs
     \<Rightarrow> string \<Rightarrow> string \<Rightarrow> string list \<Rightarrow> ('fn, 'tmpl) TemplateRenderer \<times> 'e error option" where
  "AddWithLayoutAndIncludes_loop env t fsys lay includes [] = (t, None)"
| "AddWithLayoutAndIncludes_loop env t fsys lay includes (f # fs) =
     (let tname = path_Base f; lname = path_Base lay
      in case ParseFS env (templateFuncs t) tname fsys [lay, includes, f] of
           Inl err \<Rightarrow> (t, Some (Wrap (Collab err) (''failed to parse template '' @ f)))
         | Inr tmp \<Rightarrow>
             AddWithLayoutAndIncludes_loop env
               (t\<lparr>templates := (templates t)(tname \<mapsto> \<lparr>layout = lname, name = tname, template = tmp\<rparr>)\<rparr>)
               fsys lay includes fs)"

definition AddWithLayoutAndIncludes ::
  "('fs, 'fn, 'tmpl, 'data, 'clk, 'ctx, 'e) collaborators \<Rightarrow> ('fn, 'tmpl) TemplateRenderer \<Rightarrow> 'fs
     \<Rightarrow> string \<Rightarrow> string \<Rightarrow> string list \<Rightarrow> ('fn, 'tmpl) TemplateRenderer \<times> 'e error option" where
  "AddWithLayoutAndIncludes env t fsys lay includes patterns =
     (case readFileNames env fsys patterns of
        Inl err \<Rightarrow> (t, Some (Wrap err ''failed to list using file pattern''))
      | Inr filenames \<Rightarrow> AddWithLayoutAndIncludes_loop env t fsys lay includes filenames)"

text \<open>
  \<^verbatim>\<open>Add\<close> leaves the field \<^verbatim>\<open>layout\<close> out of the struct literal: it holds the
  zero value, the empty string.
\<close>

fun Add_loop ::
  "('fs, 'fn, 'tmpl, 'data, 'clk, 'ctx, 'e) collaborators \<Rightarrow> ('fn, 'tmpl) TemplateRenderer \<Rightarrow> 'fs
     \<Rightarrow> string list \<Rightarrow> ('fn, 'tmpl) TemplateRenderer \<times> 'e error option" where
  "Add_loop env t fsys [] = (t, None)"
| "Add_loop env t fsys (f # fs) =
     (let tname = path_Base f
      in case ParseFS env (templateFuncs t) tname fsys [f] of
           Inl err \<Rightarrow> (t, Some (Wrap (Collab err) (''failed to parse template '' @ f)))
         | Inr tmp \<Rightarrow>
             Add_loop env
               (t\<lparr>templates := (templates t)(tname \<mapsto> \<lparr>layout = [], name = tname, template = tmp\<rparr>)\<rparr>)
               fsys fs)"

definition Add ::
  "('fs, 'fn, 'tmpl, 'data, 'clk, 'ctx, 'e) collaborators \<Rightarrow> ('fn, 'tmpl) TemplateRenderer \<Rightarrow> 'fs
     \<Rightarrow> string list \<Rightarrow> ('fn, 'tmpl) TemplateRenderer \<times> 'e error option" where
  "Add env t fsys patterns =
     (case readFileNames env fsys patterns of
        Inl err \<Rightarrow> (t, Some (Wrap err ''failed to read file names using file pattern''))
      | Inr filenames \<Rightarrow> Add_loop env t fsys filenames)"

text \<open>
  \<^verbatim>\<open>Render\<close>. The result holds the registry after the call, the output stream
  (the bytes \<open>w\<close> held before, followed by what the engine wrote), the context after the
  call and the error returned.
\<close>

definition execNameOf :: "'tmpl Template \<Rightarrow> string" where
  "execNameOf tmpl = (if layout tmpl \<noteq> [] then layout tmpl else name tmpl)"

definition Render ::
  "('fs, 'fn, 'tmpl, 'data, 'clk, 'ctx, 'e) collaborators \<Rightarrow> ('fn, 'tmpl) TemplateRenderer
     \<Rightarrow> string \<Rightarrow> string \<Rightarrow> 'data \<Rightarrow> 'clk \<Rightarrow> 'ctx
     \<Rightarrow> ('fn, 'tmpl) TemplateRenderer \<times> string \<times> 'ctx \<times> 'e error option" where
  "Render env t w nm data now c =
     (case templates t nm of
        None \<Rightarrow>
          (case NoContent env c StatusInternalServerError of
             (c', r) \<Rightarrow> (t, w, c', map_option Collab r))
      | Some tmpl \<Rightarrow>
          (case ExecuteTemplate env (template tmpl) (execNameOf tmpl) data now of
             (out, Some err) \<Rightarrow> (t, w @ out, c, Some (Collab err))
           | (out, None) \<Rightarrow> (t, w @ out, c, None)))"

section \<open>The caller's function map\<close>

text \<open>
  \<^verbatim>\<open>template.FuncMap\<close> is a Go map, and a Go map is a reference.
  \<^verbatim>\<open>NewWithTemplateFuncs\<close> stores the map it is given, not a copy, and the caller
  keeps the same map. A heap gives the contents of the function maps by address;
  \<open>TemplateRendererRef\<close> is the struct with the address in the field
  \<^verbatim>\<open>templateFuncs\<close>. \<open>deref\<close> is the registry that a method finds when it is called
  on the struct in a heap: every registration reads \<^verbatim>\<open>t.templateFuncs\<close> again.
  \<open>mapassign\<close> is the caller's statement \<^verbatim>\<open>m[k] = v\<close> on the map at an address.
\<close>

type_synonym ref = nat

record 'tmpl TemplateRendererRef =
  ref_templates :: "string \<rightharpoonup> 'tmpl Template"
  ref_templateFuncs :: ref

definition NewWithTemplateFuncs_ref :: "ref \<Rightarrow> 'tmpl TemplateRendererRef" where
  "NewWithTemplateFuncs_ref r = \<lparr>ref_templates = Map.empty, ref_templateFuncs = r\<rparr>"

definition deref ::
  "(ref \<Rightarrow> (string \<rightharpoonup> 'fn)) \<Rightarrow> 'tmpl TemplateRendererRef \<Rightarrow> ('fn, 'tmpl) TemplateRenderer" where
  "deref heap t = \<lparr>templates = ref_templates t, templateFuncs = heap (ref_templateFuncs t)\<rparr>"

definition mapassign ::
  "(ref \<Rightarrow> (string \<rightharpoonup> 'fn)) \<Rightarrow> ref \<Rightarrow> string \<Rightarrow> 'fn \<Rightarrow> (ref \<Rightarrow> (string \<rightharpoonup> 'fn))" where
  "mapassign heap r k v = heap(r := (heap r)(k \<mapsto> v))"

section \<open>Definitions used by the proofs\<close>

text \<open>
  The three loops over \<^verbatim>\<open>filenames\<close> differ in two places only: the value stored in
  the field \<^verbatim>\<open>layout\<close> and the patterns given to \<^verbatim>\<open>ParseFS\<close> before the file.
  \<open>register_loop\<close> takes both as arguments; each loop above is proved equal to an
  instance of it, and the properties of the loops are proved once.
\<close>

fun register_loop ::
  "('fs, 'fn, 'tmpl, 'data, 'clk, 'ctx, 'e) collaborators \<Rightarrow> ('fn, 'tmpl) TemplateRenderer \<Rightarrow> 'fs
     \<Rightarrow> string \<Rightarrow> string list \<Rightarrow> string list \<Rightarrow> ('fn, 'tmpl) TemplateRenderer \<times> 'e error option" where
  "register_loop env t fsys lname extra [] = (t, None)"
| "register_loop env t fsys lname extra (f # fs) =
     (case ParseFS env (templateFuncs t) (path_Base f) fsys (extra @ [f]) of
        Inl err \<Rightarrow> (t, Some (Wrap (Collab err) (''failed to parse template '' @ f)))
      | Inr tmp \<Rightarrow>
          register_loop env
            (t\<lparr>templates := (templates t)(path_Base f \<mapsto> \<lparr>layout = lname, name = path_Base f, template = tmp\<rparr>)\<rparr>)
            fsys lname extra fs)"

text \<open>The error of the loop alone: it depends on the function map, not on the units.\<close>

fun first_parse_error ::
  "('fs, 'fn, 'tmpl, 'data, 'clk, 'ctx, 'e) collaborators \<Rightarrow> (string \<rightharpoonup> 'fn) \<Rightarrow> 'fs
     \<Rightarrow> string list \<Rightarrow> string list \<Rightarrow> 'e error option" where
  "first_parse_error env funcs fsys extra [] = None"
| "first_parse_error env funcs fsys extra (f # fs) =
     (case ParseFS env funcs (path_Base f) fsys (extra @ [f]) of
        Inl err \<Rightarrow> Some (Wrap (Collab err) (''failed to parse template '' @ f))
      | Inr tmp \<Rightarrow> first_parse_error env funcs fsys extra fs)"

text \<open>
  A pattern matches files when globbing it succeeds with a list that is not empty; a
  file compiles when \<^verbatim>\<open>ParseFS\<close> returns a template for it, parsed after the
  patterns \<open>extra\<close>.
\<close>

definition matchesFiles ::
  "('fs, 'fn, 'tmpl, 'data, 'clk, 'ctx, 'e) collaborators \<Rightarrow> 'fs \<Rightarrow> string \<Rightarrow> bool" where
  "matchesFiles env fsys pattern =
     (case Glob env fsys pattern of Inl err \<Rightarrow> False | Inr list \<Rightarrow> list \<noteq> [])"

definition compiles ::
  "('fs, 'fn, 'tmpl, 'data, 'clk, 'ctx, 'e) collaborators \<Rightarrow> (string \<rightharpoonup> 'fn) \<Rightarrow> 'fs
     \<Rightarrow> string list \<Rightarrow> string \<Rightarrow> bool" where
  "compiles env funcs fsys extra f =
     (case ParseFS env funcs (path_Base f) fsys (extra @ [f]) of Inl err \<Rightarrow> False | Inr tmp \<Rightarrow> True)"


subsection \<open>Example collaborators\<close>

text \<open>
  A small instance of the collaborators, on which the theorems are run. The file system
  is a table from pattern to the paths it matches; the pattern \<^verbatim>\<open>[\<close> is malformed.
  The engine refuses the file \<^verbatim>\<open>drafts/broken.html\<close>, and the file
  \<^verbatim>\<open>pages2/index2.html\<close> when the function map does not define
  \<^verbatim>\<open>getTime2\<close>, which that file calls; a compiled template is the name it was
  created with and the patterns it was parsed from. Execution fails on the
  data \<^verbatim>\<open>bad\<close> after writing some bytes, and otherwise writes the entry point and the
  time. The context is the pair of status and committed flag of the response. Template
  functions read the clock and return a string, as \<^verbatim>\<open>getTime\<close> does.
\<close>

definition example_fs :: "(string \<times> string list) list" where
  "example_fs =
     [(''pages/*.html'', [''pages/index.html'', ''pages/about.html'']),
      (''admin/*.html'', [''admin/index.html'']),
      (''fragments/*.html'', [''fragments/data.html'']),
      (''pages2/*.html'', [''pages2/index2.html'']),
      (''drafts/*.html'', [''drafts/ok.html'', ''drafts/broken.html'', ''drafts/later.html''])]"

definition example_Glob :: "(string \<times> string list) list \<Rightarrow> string \<Rightarrow> string + string list" where
  "example_Glob fsys pattern =
     (if pattern = ''['' then Inl ''syntax error in pattern''
      else (case map_of fsys pattern of None \<Rightarrow> Inr [] | Some list \<Rightarrow> Inr list))"

definition example_ParseFS ::
  "(string \<rightharpoonup> (wallclock \<Rightarrow> string)) \<Rightarrow> string \<Rightarrow> (string \<times> string list) list \<Rightarrow> string list
     \<Rightarrow> string + (string \<times> string list)" where
  "example_ParseFS funcs tname fsys patterns =
     (if ''drafts/broken.html'' \<in> set patterns then Inl ''unexpected EOF''
      else if ''pages2/index2.html'' \<in> set patterns \<and> funcs ''getTime2'' = None
        then Inl ''function getTime2 not defined''
      else Inr (tname, patterns))"

definition example_ExecuteTemplate ::
  "string \<times> string list \<Rightarrow> string \<Rightarrow> string \<Rightarrow> wallclock \<Rightarrow> string \<times> string option" where
  "example_ExecuteTemplate tmpl execName data now =
     (if data = ''bad'' then (''<h1>'', Some ''nil data'')
      else (execName @ '' '' @ getTime now, None))"

definition example_NoContent :: "nat \<times> bool \<Rightarrow> nat \<Rightarrow> (nat \<times> bool) \<times> string option" where
  "example_NoContent c code = ((if snd c then c else (code, True)), None)"

definition example_env ::
  "((string \<times> string list) list, wallclock \<Rightarrow> string, string \<times> string list, string, wallclock,
    nat \<times> bool, string) collaborators" where
  "example_env =
     \<lparr>Glob = example_Glob, ParseFS = example_ParseFS,
      ExecuteTemplate = example_ExecuteTemplate, NoContent = example_NoContent\<rparr>"

definition noon :: wallclock where
  "noon = \<lparr>Hour = 12, Minute = 0, Second = 0\<rparr>"

text \<open>A context whose \<^verbatim>\<open>NoContent\<close> sets the status and then fails to send.\<close>

definition failing_NoContent :: "nat \<times> bool \<Rightarrow> nat \<Rightarrow> (nat \<times> bool) \<times> string option" where
  "failing_NoContent c code = ((code, True), Some ''connection closed'')"

definition failing_context_env ::
  "((string \<times> string list) list, wallclock \<Rightarrow> string, string \<times> string list, string, wallclock,
    nat \<times> bool, string) collaborators" where
  "failing_context_env = example_env\<lparr>NoContent := failing_NoContent\<rparr>"

text \<open>
  Collaborators for a caller whose function \<^verbatim>\<open>nextID\<close> numbers what it is asked
  for: the state outside the registry is the clock and the number issued last, and
  \<^verbatim>\<open>nextID\<close> prints that number. A compiled template holds the function map it was
  parsed with, and executing it writes the entry point and the result of
  \<^verbatim>\<open>nextID\<close>. \<open>counting_registry\<close> has the fragments registered with that function.
\<close>

record outside =
  Clock :: wallclock
  Issued :: nat

definition nextID :: "outside \<Rightarrow> string" where
  "nextID s = twoDigits (Issued s)"

definition counter_ParseFS ::
  "(string \<rightharpoonup> (outside \<Rightarrow> string)) \<Rightarrow> string \<Rightarrow> (string \<times> string list) list \<Rightarrow> string list
     \<Rightarrow> string + ((string \<rightharpoonup> (outside \<Rightarrow> string)) \<times> string list)" where
  "counter_ParseFS funcs tname fsys patterns = Inr (funcs, patterns)"

definition counter_ExecuteTemplate ::
  "(string \<rightharpoonup> (outside \<Rightarrow> string)) \<times> string list \<Rightarrow> string \<Rightarrow> string \<Rightarrow> outside
     \<Rightarrow> string \<times> string option" where
  "counter_ExecuteTemplate tmpl execName data s =
     (case fst tmpl ''nextID'' of
        None \<Rightarrow> ([], Some ''function nextID not defined'')
      | Some f \<Rightarrow> (execName @ '' '' @ f s, None))"

definition counter_env ::
  "((string \<times> string list) list, outside \<Rightarrow> string,
    (string \<rightharpoonup> (outside \<Rightarrow> string)) \<times> string list, string, outside, nat \<times> bool, string)
     collaborators" where
  "counter_env =
     \<lparr>Glob = example_Glob, ParseFS = counter_ParseFS,
      ExecuteTemplate = counter_ExecuteTemplate, NoContent = example_NoContent\<rparr>"

definition counting_registry ::
  "(outside \<Rightarrow> string, (string \<rightharpoonup> (outside \<Rightarrow> string)) \<times> string list) TemplateRenderer" where
  "counting_registry =
     fst (Add counter_env (NewWithTemplateFuncs [''nextID'' \<mapsto> nextID]) example_fs [''fragments/*.html''])"

text \<open>
  A heap in which every function map is empty, the registry that
  \<^verbatim>\<open>NewWithTemplateFuncs\<close> builds on the caller's map at address 1, and the clock
  at 15:04:05.
\<close>

definition empty_heap :: "ref \<Rightarrow> (string \<rightharpoonup> (wallclock \<Rightarrow> string))" where
  "empty_heap r = Map.empty"

definition caller_registry :: "(string \<times> string list) TemplateRendererRef" where
  "caller_registry = NewWithTemplateFuncs_ref 1"

definition afternoon :: wallclock where
  "afternoon = \<lparr>Hour = 15, Minute = 4, Second = 5\<rparr>"

section \<open>Properties of the helpers\<close>

text \<open>The equations that evaluate \<open>path_Base\<close> and the example collaborators.\<close>

lemmas path_Base_eval = path_Base_def lastElement_def stripTrailingSlashes_def Let_def

lemmas example_defs = example_env_def example_Glob_def example_ParseFS_def
  example_ExecuteTemplate_def example_NoContent_def example_fs_def

lemma path_Base_nonempty: "path_Base p \<noteq> []"
proof (cases "p = []")
  case True
  then show ?thesis by (simp add: path_Base_def)
next
  case False
  then show ?thesis by (simp add: path_Base_def Let_def)
qed

lemma Add_loop_register: "Add_loop env t fsys fs = register_loop env t fsys [] [] fs"
  by (induction fs arbitrary: t) (simp_all add: Let_def split: sum.splits)

lemma AddWithLayout_loop_register:
  "AddWithLayout_loop env t fsys lay fs = register_loop env t fsys (path_Base lay) [lay] fs"
  by (induction fs arbitrary: t) (simp_all add: Let_def split: sum.splits)

lemma AddWithLayoutAndIncludes_loop_register:
  "AddWithLayoutAndIncludes_loop env t fsys lay inc fs =
     register_loop env t fsys (path_Base lay) [lay, inc] fs"
  by (induction fs arbitrary: t) (simp_all add: Let_def split: sum.splits)

lemma register_loop_funcs:
  "templateFuncs (fst (register_loop env t fsys lname extra fs)) = templateFuncs t"
  by (induction fs arbitrary: t) (simp_all split: sum.splits)

lemma register_loop_append:
  "register_loop env t fsys lname extra (fs1 @ fs2) =
     (case register_loop env t fsys lname extra fs1 of
        (t', None) \<Rightarrow> register_loop env t' fsys lname extra fs2
      | (t', Some err) \<Rightarrow> (t', Some err))"
  by (induction fs1 arbitrary: t) (simp_all split: sum.splits)

lemma register_loop_untouched:
  "k \<notin> path_Base ` set fs \<Longrightarrow>
     templates (fst (register_loop env t fsys lname extra fs)) k = templates t k"
  by (induction fs arbitrary: t) (simp_all split: sum.splits)

text \<open>Where a unit of the registry after the loop comes from.\<close>

lemma register_loop_provenance:
  "templates (fst (register_loop env t fsys lname extra fs)) k = Some u \<Longrightarrow>
     templateFuncs t = funcs \<Longrightarrow>
     templates t k = Some u \<or>
     (\<exists>f\<in>set fs. k = path_Base f \<and> layout u = lname \<and> name u = k \<and>
        ParseFS env funcs k fsys (extra @ [f]) = Inr (template u))"
proof (induction fs arbitrary: t)
  case Nil
  then show ?case by simp
next
  case (Cons f fs)
  show ?case
  proof (cases "ParseFS env funcs (path_Base f) fsys (extra @ [f])")
    case (Inl e)
    with Cons.prems show ?thesis by simp
  next
    case (Inr tmp)
    define un where "un = \<lparr>layout = lname, name = path_Base f, template = tmp\<rparr>"
    define t' where "t' = t\<lparr>templates := (templates t)(path_Base f \<mapsto> un)\<rparr>"
    have step: "register_loop env t fsys lname extra (f # fs) = register_loop env t' fsys lname extra fs"
      using Inr Cons.prems(2) by (simp add: t'_def un_def)
    have funcs': "templateFuncs t' = funcs"
      using Cons.prems(2) by (simp add: t'_def)
    have "templates (fst (register_loop env t' fsys lname extra fs)) k = Some u"
      using Cons.prems(1) step by simp
    from Cons.IH [OF this funcs']
    consider (old) "templates t' k = Some u"
      | (new) "\<exists>g\<in>set fs. k = path_Base g \<and> layout u = lname \<and> name u = k \<and>
                 ParseFS env funcs k fsys (extra @ [g]) = Inr (template u)"
      by blast
    then show ?thesis
    proof cases
      case old
      show ?thesis
      proof (cases "k = path_Base f")
        case True
        with old have "u = un" by (simp add: t'_def)
        with True Inr show ?thesis by (simp add: un_def)
      next
        case False
        with old show ?thesis by (simp add: t'_def)
      qed
    next
      case new
      then show ?thesis by auto
    qed
  qed
qed

lemma register_loop_error:
  "templateFuncs t = funcs \<Longrightarrow>
     snd (register_loop env t fsys lname extra fs) = first_parse_error env funcs fsys extra fs"
proof (induction fs arbitrary: t)
  case Nil
  then show ?case by simp
next
  case (Cons f fs)
  show ?case
  proof (cases "ParseFS env funcs (path_Base f) fsys (extra @ [f])")
    case (Inl e)
    with Cons.prems show ?thesis by simp
  next
    case (Inr tmp)
    have "snd (register_loop env
             (t\<lparr>templates := (templates t)(path_Base f \<mapsto> \<lparr>layout = lname, name = path_Base f, template = tmp\<rparr>)\<rparr>)
             fsys lname extra fs) = first_parse_error env funcs fsys extra fs"
      by (rule Cons.IH) (simp add: Cons.prems)
    with Inr Cons.prems show ?thesis by simp
  qed
qed



section \<open>Resolving the patterns\<close>

lemma readFileNames_loop_prefix:
  "list_all (matchesFiles env fsys) ps \<Longrightarrow>
     \<exists>files. readFileNames_loop env fsys acc (ps @ qs) = readFileNames_loop env fsys (acc @ files) qs"
proof (induction ps arbitrary: acc)
  case Nil
  have "readFileNames_loop env fsys acc ([] @ qs) = readFileNames_loop env fsys (acc @ []) qs"
    by simp
  then show ?case by blast
next
  case (Cons p ps)
  from Cons.prems obtain list where g: "Glob env fsys p = Inr list" and ne: "list \<noteq> []"
    by (auto simp: matchesFiles_def split: sum.splits)
  from Cons.prems have "list_all (matchesFiles env fsys) ps" by simp
  from Cons.IH [OF this, of "acc @ list"] obtain files where
    "readFileNames_loop env fsys (acc @ list) (ps @ qs) = readFileNames_loop env fsys ((acc @ list) @ files) qs"
    by blast
  with g ne have "readFileNames_loop env fsys acc ((p # ps) @ qs) = readFileNames_loop env fsys (acc @ (list @ files)) qs"
    by simp
  then show ?case by blast
qed

lemma readFileNames_first_empty:
  assumes "list_all (matchesFiles env fsys) ps" and "Glob env fsys p = Inr []"
  shows "readFileNames env fsys (ps @ p # qs) = Inl (NoFiles p)"
proof -
  from readFileNames_loop_prefix [OF assms(1), of "[]" "p # qs"] obtain files where
    "readFileNames_loop env fsys [] (ps @ p # qs) = readFileNames_loop env fsys ([] @ files) (p # qs)"
    by blast
  with assms(2) show ?thesis by (simp add: readFileNames_def)
qed

lemma readFileNames_first_malformed:
  assumes "list_all (matchesFiles env fsys) ps" and "Glob env fsys p = Inl e"
  shows "readFileNames env fsys (ps @ p # qs) = Inl (Wrap (Collab e) ''failed to list using file pattern'')"
proof -
  from readFileNames_loop_prefix [OF assms(1), of "[]" "p # qs"] obtain files where
    "readFileNames_loop env fsys [] (ps @ p # qs) = readFileNames_loop env fsys ([] @ files) (p # qs)"
    by blast
  with assms(2) show ?thesis by (simp add: readFileNames_def)
qed

lemma readFileNames_loop_fails:
  "\<exists>p\<in>set ps. \<not> matchesFiles env fsys p \<Longrightarrow> \<exists>err. readFileNames_loop env fsys acc ps = Inl err"
proof (induction ps arbitrary: acc)
  case Nil
  then show ?case by simp
next
  case (Cons p ps)
  show ?case
  proof (cases "matchesFiles env fsys p")
    case True
    then obtain list where g: "Glob env fsys p = Inr list" and ne: "list \<noteq> []"
      by (auto simp: matchesFiles_def split: sum.splits)
    from True Cons.prems have "\<exists>q\<in>set ps. \<not> matchesFiles env fsys q" by auto
    from Cons.IH [OF this, of "acc @ list"] g ne show ?thesis by simp
  next
    case False
    then show ?thesis by (auto simp: matchesFiles_def split: sum.splits)
  qed
qed

lemma readFileNames_fails:
  "\<exists>p\<in>set ps. \<not> matchesFiles env fsys p \<Longrightarrow> \<exists>err. readFileNames env fsys ps = Inl err"
  unfolding readFileNames_def by (rule readFileNames_loop_fails)

section \<open>Registration\<close>

text \<open>
  Claim C1, as amended. In each of \<^verbatim>\<open>Add\<close>, \<^verbatim>\<open>AddWithLayout\<close> and
  \<^verbatim>\<open>AddWithLayoutAndIncludes\<close>: when the patterns before \<open>p\<close> all match files and
  \<open>p\<close> matches none, the call returns the error that names \<open>p\<close>, wrapped with the
  message of the method, and the registry it leaves is the registry it was given: no file
  of the earlier patterns has been registered.
\<close>

theorem registration_aborts_at_first_empty_pattern:
  assumes "list_all (matchesFiles env fsys) ps" and "Glob env fsys p = Inr []"
  shows "Add env t fsys (ps @ p # qs)
           = (t, Some (Wrap (NoFiles p) ''failed to read file names using file pattern''))
       \<and> AddWithLayout env t fsys lay (ps @ p # qs)
           = (t, Some (Wrap (NoFiles p) ''failed to list using file pattern''))
       \<and> AddWithLayoutAndIncludes env t fsys lay inc (ps @ p # qs)
           = (t, Some (Wrap (NoFiles p) ''failed to list using file pattern''))"
  using readFileNames_first_empty [OF assms]
  by (simp add: Add_def AddWithLayout_def AddWithLayoutAndIncludes_def)

theorem registration_aborts_at_first_empty_pattern_witness:
  "list_all (matchesFiles example_env example_fs) [''fragments/*.html'']
   \<and> Glob example_env example_fs ''missing/*.html'' = Inr []
   \<and> Add example_env New example_fs [''fragments/*.html'', ''missing/*.html'', ''pages/*.html'']
       = (New, Some (Wrap (NoFiles ''missing/*.html'') ''failed to read file names using file pattern''))
   \<and> AddWithLayout example_env New example_fs ''layout.html'' [''fragments/*.html'', ''missing/*.html'', ''pages/*.html'']
       = (New, Some (Wrap (NoFiles ''missing/*.html'') ''failed to list using file pattern''))
   \<and> AddWithLayoutAndIncludes example_env New example_fs ''layout.html'' ''includes/*.html''
         [''fragments/*.html'', ''missing/*.html'', ''pages/*.html'']
       = (New, Some (Wrap (NoFiles ''missing/*.html'') ''failed to list using file pattern''))"
proof -
  have h1: "list_all (matchesFiles example_env example_fs) [''fragments/*.html'']"
    by (simp add: matchesFiles_def example_defs)
  have h2: "Glob example_env example_fs ''missing/*.html'' = Inr []"
    by (simp add: example_defs)
  show ?thesis
    using h1 h2 registration_aborts_at_first_empty_pattern [OF h1 h2, of New "[''pages/*.html'']" "''layout.html''" "''includes/*.html''"]
    by simp
qed

text \<open>
  Claim C1 as stated fails. The first pattern matches \<^verbatim>\<open>fragments/data.html\<close>, which
  compiles; the second pattern matches nothing. The call returns the error of the second
  pattern and \<^verbatim>\<open>data.html\<close> is not registered, although the first pattern alone
  registers it.
\<close>

theorem earlier_units_not_kept_counterexample:
  "Glob example_env example_fs ''fragments/*.html'' = Inr [''fragments/data.html'']
   \<and> ParseFS example_env defaultTemplateFuncs ''data.html'' example_fs [''fragments/data.html'']
       = Inr (''data.html'', [''fragments/data.html''])
   \<and> Glob example_env example_fs ''missing/*.html'' = Inr []
   \<and> snd (Add example_env New example_fs [''fragments/*.html'', ''missing/*.html''])
       = Some (Wrap (NoFiles ''missing/*.html'') ''failed to read file names using file pattern'')
   \<and> templates (fst (Add example_env New example_fs [''fragments/*.html'', ''missing/*.html''])) ''data.html''
       = None
   \<and> templates (fst (Add example_env New example_fs [''fragments/*.html''])) ''data.html''
       = Some \<lparr>layout = [], name = ''data.html'', template = (''data.html'', [''fragments/data.html''])\<rparr>"
  by (simp add: Add_def readFileNames_def New_def example_defs path_Base_def lastElement_def
      stripTrailingSlashes_def Let_def)

lemma readFileNames_loop_ParseFS:
  "readFileNames_loop (env\<lparr>ParseFS := pf\<rparr>) fsys acc ps = readFileNames_loop env fsys acc ps"
  by (induction ps arbitrary: acc) (simp_all split: sum.splits)

lemma readFileNames_ParseFS:
  "readFileNames (env\<lparr>ParseFS := pf\<rparr>) fsys ps = readFileNames env fsys ps"
  by (simp add: readFileNames_def readFileNames_loop_ParseFS)

text \<open>
  Claim C3. When some pattern of a registration call does not match files (globbing it
  fails or gives no file), the call returns an error and the registry it leaves is the
  registry it was given. No file is compiled on the way: the result is the same
  whatever the engine's \<^verbatim>\<open>ParseFS\<close> would answer.
\<close>

theorem pattern_failure_registers_nothing:
  assumes "\<exists>p\<in>set patterns. \<not> matchesFiles env fsys p"
  shows "fst (Add env t fsys patterns) = t \<and> snd (Add env t fsys patterns) \<noteq> None
       \<and> Add (env\<lparr>ParseFS := pf\<rparr>) t fsys patterns = Add env t fsys patterns
       \<and> fst (AddWithLayout env t fsys lay patterns) = t
       \<and> snd (AddWithLayout env t fsys lay patterns) \<noteq> None
       \<and> AddWithLayout (env\<lparr>ParseFS := pf\<rparr>) t fsys lay patterns = AddWithLayout env t fsys lay patterns
       \<and> fst (AddWithLayoutAndIncludes env t fsys lay inc patterns) = t
       \<and> snd (AddWithLayoutAndIncludes env t fsys lay inc patterns) \<noteq> None
       \<and> AddWithLayoutAndIncludes (env\<lparr>ParseFS := pf\<rparr>) t fsys lay inc patterns
           = AddWithLayoutAndIncludes env t fsys lay inc patterns"
proof -
  from readFileNames_fails [OF assms] obtain err where
    "readFileNames env fsys patterns = Inl err" by blast
  then show ?thesis
    by (simp add: Add_def AddWithLayout_def AddWithLayoutAndIncludes_def readFileNames_ParseFS)
qed

theorem pattern_failure_registers_nothing_witness:
  "(\<exists>p\<in>set [''pages/*.html'', ''missing/*.html'']. \<not> matchesFiles example_env example_fs p)
   \<and> fst (Add example_env New example_fs [''pages/*.html'', ''missing/*.html'']) = New
   \<and> snd (Add example_env New example_fs [''pages/*.html'', ''missing/*.html'']) \<noteq> None
   \<and> fst (AddWithLayout example_env New example_fs ''layout.html'' [''pages/*.html'', ''missing/*.html'']) = New
   \<and> snd (AddWithLayout example_env New example_fs ''layout.html'' [''pages/*.html'', ''missing/*.html'']) \<noteq> None
   \<and> fst (AddWithLayoutAndIncludes example_env New example_fs ''layout.html'' ''includes/*.html''
            [''pages/*.html'', ''missing/*.html'']) = New
   \<and> snd (AddWithLayoutAndIncludes example_env New example_fs ''layout.html'' ''includes/*.html''
            [''pages/*.html'', ''missing/*.html'']) \<noteq> None"
proof -
  have h: "\<exists>p\<in>set [''pages/*.html'', ''missing/*.html'']. \<not> matchesFiles example_env example_fs p"
    by (simp add: matchesFiles_def example_defs)
  show ?thesis
    using h pattern_failure_registers_nothing [OF h, of New "ParseFS example_env" "''layout.html''" "''includes/*.html''"]
    by simp
qed

lemma split_at_first:
  "p \<in> set xs \<Longrightarrow> xs = takeWhile (\<lambda>q. q \<noteq> p) xs @ p # tl (dropWhile (\<lambda>q. q \<noteq> p) xs)"
  by (induction xs) auto

text \<open>
  Claim C10. A pattern that \<^verbatim>\<open>fs.Glob\<close> rejects makes each registration call
  return an error and leave the registry as it was given. When the patterns before it
  all match files, the error is the one of \<^verbatim>\<open>fs.Glob\<close>, wrapped by
  \<^verbatim>\<open>readFileNames\<close> and by the method: neither the error of a pattern without
  files nor the error of a file that does not parse.
\<close>

theorem malformed_pattern_aborts_registration:
  assumes "p \<in> set patterns" and "Glob env fsys p = Inl e"
  shows "fst (Add env t fsys patterns) = t \<and> snd (Add env t fsys patterns) \<noteq> None
       \<and> fst (AddWithLayout env t fsys lay patterns) = t
       \<and> snd (AddWithLayout env t fsys lay patterns) \<noteq> None
       \<and> fst (AddWithLayoutAndIncludes env t fsys lay inc patterns) = t
       \<and> snd (AddWithLayoutAndIncludes env t fsys lay inc patterns) \<noteq> None
       \<and> (list_all (matchesFiles env fsys) (takeWhile (\<lambda>q. q \<noteq> p) patterns) \<longrightarrow>
            snd (Add env t fsys patterns)
              = Some (Wrap (Wrap (Collab e) ''failed to list using file pattern'')
                        ''failed to read file names using file pattern'')
          \<and> snd (AddWithLayout env t fsys lay patterns)
              = Some (Wrap (Wrap (Collab e) ''failed to list using file pattern'')
                        ''failed to list using file pattern'')
          \<and> snd (AddWithLayoutAndIncludes env t fsys lay inc patterns)
              = Some (Wrap (Wrap (Collab e) ''failed to list using file pattern'')
                        ''failed to list using file pattern''))"
proof -
  have "\<not> matchesFiles env fsys p"
    using assms(2) by (simp add: matchesFiles_def)
  with assms(1) have "\<exists>q\<in>set patterns. \<not> matchesFiles env fsys q" by blast
  from readFileNames_fails [OF this] obtain err where
    fails: "readFileNames env fsys patterns = Inl err" by blast
  have exact: "readFileNames env fsys patterns = Inl (Wrap (Collab e) ''failed to list using file pattern'')"
    if ok: "list_all (matchesFiles env fsys) (takeWhile (\<lambda>q. q \<noteq> p) patterns)"
  proof -
    have "readFileNames env fsys
            (takeWhile (\<lambda>q. q \<noteq> p) patterns @ p # tl (dropWhile (\<lambda>q. q \<noteq> p) patterns))
          = Inl (Wrap (Collab e) ''failed to list using file pattern'')"
      by (rule readFileNames_first_malformed [OF ok assms(2)])
    with split_at_first [OF assms(1)] show ?thesis by simp
  qed
  have general: "fst (Add env t fsys patterns) = t \<and> snd (Add env t fsys patterns) \<noteq> None
       \<and> fst (AddWithLayout env t fsys lay patterns) = t
       \<and> snd (AddWithLayout env t fsys lay patterns) \<noteq> None
       \<and> fst (AddWithLayoutAndIncludes env t fsys lay inc patterns) = t
       \<and> snd (AddWithLayoutAndIncludes env t fsys lay inc patterns) \<noteq> None"
    using fails by (simp add: Add_def AddWithLayout_def AddWithLayoutAndIncludes_def)
  have first: "snd (Add env t fsys patterns)
              = Some (Wrap (Wrap (Collab e) ''failed to list using file pattern'')
                        ''failed to read file names using file pattern'')
          \<and> snd (AddWithLayout env t fsys lay patterns)
              = Some (Wrap (Wrap (Collab e) ''failed to list using file pattern'')
                        ''failed to list using file pattern'')
          \<and> snd (AddWithLayoutAndIncludes env t fsys lay inc patterns)
              = Some (Wrap (Wrap (Collab e) ''failed to list using file pattern'')
                        ''failed to list using file pattern'')"
    if ok: "list_all (matchesFiles env fsys) (takeWhile (\<lambda>q. q \<noteq> p) patterns)"
    using exact [OF ok] by (simp add: Add_def AddWithLayout_def AddWithLayoutAndIncludes_def)
  from general first show ?thesis by blast
qed

theorem malformed_pattern_aborts_registration_witness:
  "''['' \<in> set [''pages/*.html'', ''['', ''missing/*.html'']
   \<and> Glob example_env example_fs ''['' = Inl ''syntax error in pattern''
   \<and> list_all (matchesFiles example_env example_fs)
        (takeWhile (\<lambda>q. q \<noteq> ''['') [''pages/*.html'', ''['', ''missing/*.html''])
   \<and> Add example_env New example_fs [''pages/*.html'', ''['', ''missing/*.html'']
       = (New, Some (Wrap (Wrap (Collab ''syntax error in pattern'') ''failed to list using file pattern'')
                      ''failed to read file names using file pattern''))
   \<and> AddWithLayout example_env New example_fs ''layout.html'' [''pages/*.html'', ''['', ''missing/*.html'']
       = (New, Some (Wrap (Wrap (Collab ''syntax error in pattern'') ''failed to list using file pattern'')
                      ''failed to list using file pattern''))
   \<and> AddWithLayoutAndIncludes example_env New example_fs ''layout.html'' ''includes/*.html''
         [''pages/*.html'', ''['', ''missing/*.html'']
       = (New, Some (Wrap (Wrap (Collab ''syntax error in pattern'') ''failed to list using file pattern'')
                      ''failed to list using file pattern''))"
proof -
  have h1: "''['' \<in> set [''pages/*.html'', ''['', ''missing/*.html'']" by simp
  have h2: "Glob example_env example_fs ''['' = Inl ''syntax error in pattern''"
    by (simp add: example_defs)
  have h3: "list_all (matchesFiles example_env example_fs)
        (takeWhile (\<lambda>q. q \<noteq> ''['') [''pages/*.html'', ''['', ''missing/*.html''])"
    by (simp add: matchesFiles_def example_defs)
  note inst = malformed_pattern_aborts_registration [OF h1 h2, of New "''layout.html''" "''includes/*.html''"]
  from inst have unchanged:
    "fst (Add example_env New example_fs [''pages/*.html'', ''['', ''missing/*.html'']) = New
     \<and> fst (AddWithLayout example_env New example_fs ''layout.html'' [''pages/*.html'', ''['', ''missing/*.html'']) = New
     \<and> fst (AddWithLayoutAndIncludes example_env New example_fs ''layout.html'' ''includes/*.html''
            [''pages/*.html'', ''['', ''missing/*.html'']) = New"
    by blast
  from inst h3 have errors:
    "snd (Add example_env New example_fs [''pages/*.html'', ''['', ''missing/*.html''])
       = Some (Wrap (Wrap (Collab ''syntax error in pattern'') ''failed to list using file pattern'')
                 ''failed to read file names using file pattern'')
     \<and> snd (AddWithLayout example_env New example_fs ''layout.html'' [''pages/*.html'', ''['', ''missing/*.html''])
       = Some (Wrap (Wrap (Collab ''syntax error in pattern'') ''failed to list using file pattern'')
                 ''failed to list using file pattern'')
     \<and> snd (AddWithLayoutAndIncludes example_env New example_fs ''layout.html'' ''includes/*.html''
            [''pages/*.html'', ''['', ''missing/*.html''])
       = Some (Wrap (Wrap (Collab ''syntax error in pattern'') ''failed to list using file pattern'')
                 ''failed to list using file pattern'')"
    by blast
  show ?thesis
    using h1 h2 h3 unchanged errors by (simp only: prod_eq_iff fst_conv snd_conv simp_thms)
qed

section \<open>Compiling and storing the units\<close>

lemma Add_register:
  "Add env t fsys patterns =
     (case readFileNames env fsys patterns of
        Inl err \<Rightarrow> (t, Some (Wrap err ''failed to read file names using file pattern''))
      | Inr filenames \<Rightarrow> register_loop env t fsys [] [] filenames)"
  by (simp add: Add_def Add_loop_register split: sum.splits)

lemma AddWithLayout_register:
  "AddWithLayout env t fsys lay patterns =
     (case readFileNames env fsys patterns of
        Inl err \<Rightarrow> (t, Some (Wrap err ''failed to list using file pattern''))
      | Inr filenames \<Rightarrow> register_loop env t fsys (path_Base lay) [lay] filenames)"
  by (simp add: AddWithLayout_def AddWithLayout_loop_register split: sum.splits)

lemma AddWithLayoutAndIncludes_register:
  "AddWithLayoutAndIncludes env t fsys lay inc patterns =
     (case readFileNames env fsys patterns of
        Inl err \<Rightarrow> (t, Some (Wrap err ''failed to list using file pattern''))
      | Inr filenames \<Rightarrow> register_loop env t fsys (path_Base lay) [lay, inc] filenames)"
  by (simp add: AddWithLayoutAndIncludes_def AddWithLayoutAndIncludes_loop_register split: sum.splits)

lemma first_parse_error_compiles:
  "list_all (compiles env funcs fsys extra) fs \<Longrightarrow> first_parse_error env funcs fsys extra fs = None"
  by (induction fs) (simp_all add: compiles_def split: sum.splits)

lemma register_loop_first_failure:
  assumes "list_all (compiles env funcs fsys extra) fs1" and "templateFuncs t = funcs"
    and "ParseFS env funcs (path_Base f) fsys (extra @ [f]) = Inl e"
  shows "register_loop env t fsys lname extra (fs1 @ f # fs2) =
           (fst (register_loop env t fsys lname extra fs1),
            Some (Wrap (Collab e) (''failed to parse template '' @ f)))"
proof -
  obtain t1 e1 where r1: "register_loop env t fsys lname extra fs1 = (t1, e1)"
    by (cases "register_loop env t fsys lname extra fs1")
  have "snd (register_loop env t fsys lname extra fs1) = None"
    by (simp add: register_loop_error [OF assms(2)] first_parse_error_compiles [OF assms(1)])
  with r1 have e1: "e1 = None" by simp
  have f1: "templateFuncs t1 = funcs"
    using register_loop_funcs [of env t fsys lname extra fs1] r1 assms(2) by simp
  show ?thesis
    using r1 e1 f1 assms(3) by (simp add: register_loop_append)
qed

text \<open>
  Claim C6. The patterns of the call all match files, which \<^verbatim>\<open>readFileNames\<close>
  lists as \<open>fs1 @ f # fs2\<close>. When the files of \<open>fs1\<close> compile and \<open>f\<close> does not,
  the call stops at \<open>f\<close>: it returns the engine's error wrapped with the message
  \<^verbatim>\<open>failed to parse template\<close> followed by the path \<open>f\<close>, and the registry holds
  what the loop stored for \<open>fs1\<close>, nothing of \<open>fs2\<close>. Each method compiles the file
  after its own leading patterns: none, the layout, the layout and the includes.
\<close>

theorem parse_failure_names_the_file:
  assumes "readFileNames env fsys patterns = Inr (fs1 @ f # fs2)"
  shows "(list_all (compiles env (templateFuncs t) fsys []) fs1
            \<and> ParseFS env (templateFuncs t) (path_Base f) fsys [f] = Inl e \<longrightarrow>
          Add env t fsys patterns =
            (fst (Add_loop env t fsys fs1), Some (Wrap (Collab e) (''failed to parse template '' @ f))))
       \<and> (list_all (compiles env (templateFuncs t) fsys [lay]) fs1
            \<and> ParseFS env (templateFuncs t) (path_Base f) fsys [lay, f] = Inl e \<longrightarrow>
          AddWithLayout env t fsys lay patterns =
            (fst (AddWithLayout_loop env t fsys lay fs1),
             Some (Wrap (Collab e) (''failed to parse template '' @ f))))
       \<and> (list_all (compiles env (templateFuncs t) fsys [lay, inc]) fs1
            \<and> ParseFS env (templateFuncs t) (path_Base f) fsys [lay, inc, f] = Inl e \<longrightarrow>
          AddWithLayoutAndIncludes env t fsys lay inc patterns =
            (fst (AddWithLayoutAndIncludes_loop env t fsys lay inc fs1),
             Some (Wrap (Collab e) (''failed to parse template '' @ f))))"
proof (intro conjI impI)
  assume "list_all (compiles env (templateFuncs t) fsys []) fs1
            \<and> ParseFS env (templateFuncs t) (path_Base f) fsys [f] = Inl e"
  then have "register_loop env t fsys [] [] (fs1 @ f # fs2) =
           (fst (register_loop env t fsys [] [] fs1),
            Some (Wrap (Collab e) (''failed to parse template '' @ f)))"
    by (intro register_loop_first_failure [where funcs = "templateFuncs t"]) simp_all
  with assms show "Add env t fsys patterns =
            (fst (Add_loop env t fsys fs1), Some (Wrap (Collab e) (''failed to parse template '' @ f)))"
    by (simp add: Add_register Add_loop_register)
next
  assume "list_all (compiles env (templateFuncs t) fsys [lay]) fs1
            \<and> ParseFS env (templateFuncs t) (path_Base f) fsys [lay, f] = Inl e"
  then have "register_loop env t fsys (path_Base lay) [lay] (fs1 @ f # fs2) =
           (fst (register_loop env t fsys (path_Base lay) [lay] fs1),
            Some (Wrap (Collab e) (''failed to parse template '' @ f)))"
    by (intro register_loop_first_failure [where funcs = "templateFuncs t"]) simp_all
  with assms show "AddWithLayout env t fsys lay patterns =
            (fst (AddWithLayout_loop env t fsys lay fs1),
             Some (Wrap (Collab e) (''failed to parse template '' @ f)))"
    by (simp add: AddWithLayout_register AddWithLayout_loop_register)
next
  assume "list_all (compiles env (templateFuncs t) fsys [lay, inc]) fs1
            \<and> ParseFS env (templateFuncs t) (path_Base f) fsys [lay, inc, f] = Inl e"
  then have "register_loop env t fsys (path_Base lay) [lay, inc] (fs1 @ f # fs2) =
           (fst (register_loop env t fsys (path_Base lay) [lay, inc] fs1),
            Some (Wrap (Collab e) (''failed to parse template '' @ f)))"
    by (intro register_loop_first_failure [where funcs = "templateFuncs t"]) simp_all
  with assms show "AddWithLayoutAndIncludes env t fsys lay inc patterns =
            (fst (AddWithLayoutAndIncludes_loop env t fsys lay inc fs1),
             Some (Wrap (Collab e) (''failed to parse template '' @ f)))"
    by (simp add: AddWithLayoutAndIncludes_register AddWithLayoutAndIncludes_loop_register)
qed

theorem parse_failure_names_the_file_witness:
  "readFileNames example_env example_fs [''drafts/*.html'']
     = Inr ([''drafts/ok.html''] @ ''drafts/broken.html'' # [''drafts/later.html''])
   \<and> list_all (compiles example_env defaultTemplateFuncs example_fs []) [''drafts/ok.html'']
   \<and> ParseFS example_env defaultTemplateFuncs ''broken.html'' example_fs [''drafts/broken.html'']
       = Inl ''unexpected EOF''
   \<and> snd (Add example_env New example_fs [''drafts/*.html''])
       = Some (Wrap (Collab ''unexpected EOF'') ''failed to parse template drafts/broken.html'')
   \<and> templates (fst (Add example_env New example_fs [''drafts/*.html''])) ''ok.html''
       = Some \<lparr>layout = [], name = ''ok.html'', template = (''ok.html'', [''drafts/ok.html''])\<rparr>
   \<and> templates (fst (Add example_env New example_fs [''drafts/*.html''])) ''later.html'' = None
   \<and> snd (AddWithLayout example_env New example_fs ''layout.html'' [''drafts/*.html''])
       = Some (Wrap (Collab ''unexpected EOF'') ''failed to parse template drafts/broken.html'')
   \<and> snd (AddWithLayoutAndIncludes example_env New example_fs ''layout.html'' ''includes/*.html''
            [''drafts/*.html''])
       = Some (Wrap (Collab ''unexpected EOF'') ''failed to parse template drafts/broken.html'')"
proof -
  have h: "readFileNames example_env example_fs [''drafts/*.html'']
     = Inr ([''drafts/ok.html''] @ ''drafts/broken.html'' # [''drafts/later.html''])"
    by (simp add: readFileNames_def example_defs)
  have pb: "path_Base ''drafts/broken.html'' = ''broken.html''"
    by (simp add: path_Base_eval)
  have funcs: "templateFuncs New = defaultTemplateFuncs"
    by (simp add: New_def)
  have c0: "list_all (compiles example_env defaultTemplateFuncs example_fs []) [''drafts/ok.html'']"
    by (simp add: compiles_def example_defs)
  have c1: "list_all (compiles example_env defaultTemplateFuncs example_fs [''layout.html'']) [''drafts/ok.html'']"
    by (simp add: compiles_def example_defs)
  have c2: "list_all (compiles example_env defaultTemplateFuncs example_fs [''layout.html'', ''includes/*.html''])
              [''drafts/ok.html'']"
    by (simp add: compiles_def example_defs)
  have p0: "ParseFS example_env defaultTemplateFuncs ''broken.html'' example_fs [''drafts/broken.html'']
       = Inl ''unexpected EOF''"
    by (simp add: example_defs)
  have p1: "ParseFS example_env defaultTemplateFuncs ''broken.html'' example_fs
              [''layout.html'', ''drafts/broken.html''] = Inl ''unexpected EOF''"
    by (simp add: example_defs)
  have p2: "ParseFS example_env defaultTemplateFuncs ''broken.html'' example_fs
              [''layout.html'', ''includes/*.html'', ''drafts/broken.html''] = Inl ''unexpected EOF''"
    by (simp add: example_defs)
  note inst = parse_failure_names_the_file [OF h, of New "''unexpected EOF''" "''layout.html''" "''includes/*.html''",
      unfolded funcs pb]
  from inst c0 p0 have r0: "Add example_env New example_fs [''drafts/*.html''] =
            (fst (Add_loop example_env New example_fs [''drafts/ok.html'']),
             Some (Wrap (Collab ''unexpected EOF'') (''failed to parse template '' @ ''drafts/broken.html'')))"
    by blast
  from inst c1 p1 have r1: "AddWithLayout example_env New example_fs ''layout.html'' [''drafts/*.html''] =
            (fst (AddWithLayout_loop example_env New example_fs ''layout.html'' [''drafts/ok.html'']),
             Some (Wrap (Collab ''unexpected EOF'') (''failed to parse template '' @ ''drafts/broken.html'')))"
    by blast
  from inst c2 p2 have r2: "AddWithLayoutAndIncludes example_env New example_fs ''layout.html'' ''includes/*.html''
            [''drafts/*.html''] =
            (fst (AddWithLayoutAndIncludes_loop example_env New example_fs ''layout.html'' ''includes/*.html''
                    [''drafts/ok.html'']),
             Some (Wrap (Collab ''unexpected EOF'') (''failed to parse template '' @ ''drafts/broken.html'')))"
    by blast
  have stored: "templates (fst (Add_loop example_env New example_fs [''drafts/ok.html''])) ''ok.html''
       = Some \<lparr>layout = [], name = ''ok.html'', template = (''ok.html'', [''drafts/ok.html''])\<rparr>
     \<and> templates (fst (Add_loop example_env New example_fs [''drafts/ok.html''])) ''later.html'' = None"
    by (simp add: New_def example_defs path_Base_eval)
  show ?thesis
    using h c0 p0 stored by (simp add: r0 r1 r2)
qed

section \<open>Rendering\<close>

lemma Render_found:
  "templates t nm = Some u \<Longrightarrow>
     Render env t w nm data now c =
       (case ExecuteTemplate env (template u) (execNameOf u) data now of
          (out, e) \<Rightarrow> (t, w @ out, c, map_option Collab e))"
  by (simp add: Render_def split: prod.splits option.splits)

lemma Render_registry: "fst (Render env t w nm data now c) = t"
  by (simp add: Render_def split: prod.splits option.splits)

text \<open>The registry of the examples: the fragments, registered without a layout.\<close>

lemma example_fragments:
  "Add example_env New example_fs [''fragments/*.html'']
     = (\<lparr>templates = [''data.html'' \<mapsto>
                        \<lparr>layout = [], name = ''data.html'',
                         template = (''data.html'', [''fragments/data.html''])\<rparr>],
         templateFuncs = defaultTemplateFuncs\<rparr>, None)"
  by (simp add: Add_def readFileNames_def New_def example_defs path_Base_eval)

text \<open>
  Claim C2, as amended. For a name that is not a key of the unit map, \<^verbatim>\<open>Render\<close>
  calls \<^verbatim>\<open>NoContent\<close> of the context with the status 500 and returns what that
  call returns: the context it leaves and its error, \<^verbatim>\<open>nil\<close> when the context
  reports none. The output stream holds what it held before, the engine is not run (the
  result is the same whatever \<^verbatim>\<open>ExecuteTemplate\<close> would do), and the registry is
  unchanged.
\<close>

theorem Render_unregistered_name:
  assumes "templates t nm = None"
  shows "Render env t w nm data now c =
           (t, w, fst (NoContent env c StatusInternalServerError),
            map_option Collab (snd (NoContent env c StatusInternalServerError)))
       \<and> Render (env\<lparr>ExecuteTemplate := ex\<rparr>) t w nm data now c = Render env t w nm data now c
       \<and> StatusInternalServerError = 500
       \<and> (snd (NoContent env c StatusInternalServerError) = None \<longrightarrow>
            Render env t w nm data now c = (t, w, fst (NoContent env c StatusInternalServerError), None))"
  using assms by (simp add: Render_def StatusInternalServerError_def split: prod.splits)

theorem Render_unregistered_name_witness:
  "templates (fst (Add example_env New example_fs [''fragments/*.html''])) ''index.html'' = None
   \<and> NoContent example_env (200, False) StatusInternalServerError = ((500, True), None)
   \<and> Render example_env (fst (Add example_env New example_fs [''fragments/*.html'']))
        ''sent before'' ''index.html'' ''data'' noon (200, False)
       = (fst (Add example_env New example_fs [''fragments/*.html'']), ''sent before'', (500, True), None)"
proof -
  have h1: "templates (fst (Add example_env New example_fs [''fragments/*.html''])) ''index.html'' = None"
    by (simp add: example_fragments)
  have h2: "NoContent example_env (200, False) StatusInternalServerError = ((500, True), None)"
    by (simp add: example_defs StatusInternalServerError_def)
  show ?thesis
    using h1 h2 Render_unregistered_name [OF h1, of example_env "''sent before''" "''data''" noon "(200, False)"]
    by simp
qed

text \<open>
  Claim C2 as stated fails: it says that \<^verbatim>\<open>Render\<close> returns no error for a name
  that is not registered. With a context whose \<^verbatim>\<open>NoContent\<close> fails, \<^verbatim>\<open>Render\<close>
  of a name that is not registered returns that error to its caller.
\<close>

theorem Render_returns_NoContent_error_counterexample:
  "templates (fst (Add failing_context_env New example_fs [''fragments/*.html''])) ''index.html'' = None
   \<and> Render failing_context_env (fst (Add failing_context_env New example_fs [''fragments/*.html'']))
        [] ''index.html'' ''data'' noon (200, False)
       = (fst (Add failing_context_env New example_fs [''fragments/*.html'']), [], (500, True),
          Some (Collab ''connection closed''))"
proof -
  have reg: "Add failing_context_env New example_fs [''fragments/*.html'']
     = (\<lparr>templates = [''data.html'' \<mapsto>
                        \<lparr>layout = [], name = ''data.html'',
                         template = (''data.html'', [''fragments/data.html''])\<rparr>],
         templateFuncs = defaultTemplateFuncs\<rparr>, None)"
    by (simp add: Add_def readFileNames_def New_def failing_context_env_def example_defs path_Base_eval)
  have miss: "templates (fst (Add failing_context_env New example_fs [''fragments/*.html''])) ''index.html''
                = None"
    by (simp add: reg)
  have "NoContent failing_context_env (200, False) StatusInternalServerError
          = ((500, True), Some ''connection closed'')"
    by (simp add: failing_context_env_def failing_NoContent_def StatusInternalServerError_def)
  with miss show ?thesis
    by (simp add: Render_def)
qed

text \<open>
  Claim C7. For a registered name, when the engine fails while executing the unit,
  \<^verbatim>\<open>Render\<close> returns the engine's error as it is. The registry it leaves is the one
  it was given, so the unit map and the unit are unchanged; the bytes the engine wrote
  before it failed are on the output stream.
\<close>

theorem Render_execution_error:
  assumes "templates t nm = Some u"
    and "ExecuteTemplate env (template u) (execNameOf u) data now = (out, Some e)"
  shows "Render env t w nm data now c = (t, w @ out, c, Some (Collab e))
       \<and> templates (fst (Render env t w nm data now c)) nm = Some u"
  using assms by (simp add: Render_def)

theorem Render_execution_error_witness:
  "templates (fst (Add example_env New example_fs [''fragments/*.html''])) ''data.html''
     = Some \<lparr>layout = [], name = ''data.html'', template = (''data.html'', [''fragments/data.html''])\<rparr>
   \<and> ExecuteTemplate example_env (''data.html'', [''fragments/data.html''])
         (execNameOf \<lparr>layout = [], name = ''data.html'', template = (''data.html'', [''fragments/data.html''])\<rparr>)
         ''bad'' noon = (''<h1>'', Some ''nil data'')
   \<and> Render example_env (fst (Add example_env New example_fs [''fragments/*.html'']))
        [] ''data.html'' ''bad'' noon (200, False)
       = (fst (Add example_env New example_fs [''fragments/*.html'']), ''<h1>'', (200, False),
          Some (Collab ''nil data''))"
proof -
  have h1: "templates (fst (Add example_env New example_fs [''fragments/*.html''])) ''data.html''
     = Some \<lparr>layout = [], name = ''data.html'', template = (''data.html'', [''fragments/data.html''])\<rparr>"
    by (simp add: example_fragments)
  have h2: "ExecuteTemplate example_env
         (template \<lparr>layout = [], name = ''data.html'', template = (''data.html'', [''fragments/data.html''])\<rparr>)
         (execNameOf \<lparr>layout = [], name = ''data.html'', template = (''data.html'', [''fragments/data.html''])\<rparr>)
         ''bad'' noon = (''<h1>'', Some ''nil data'')"
    by (simp add: example_defs)
  show ?thesis
    using h1 h2 Render_execution_error [OF h1 h2, of "[]" "(200, False)"]
    by simp
qed

text \<open>
  Claim C8, as amended. \<^verbatim>\<open>Render\<close> returns the registry it was given. A second
  call for the same registered name and the same data, made on the registry the first
  call left, executes the same compiled template from the same entry point as the
  first, and each call adds to its own stream the bytes that the engine writes in its
  execution and returns the engine's error. So the two calls write the same bytes and
  return the same error whenever the two executions do, as they do when the state that
  the caller's functions and the methods of the data read is the same at both calls.
\<close>

theorem Render_twice:
  assumes "templates t nm = Some u"
  shows "Render env t w1 nm data s1 c1 =
           (t, w1 @ fst (ExecuteTemplate env (template u) (execNameOf u) data s1), c1,
            map_option Collab (snd (ExecuteTemplate env (template u) (execNameOf u) data s1)))
       \<and> Render env (fst (Render env t w1 nm data s1 c1)) w2 nm data s2 c2 =
           (t, w2 @ fst (ExecuteTemplate env (template u) (execNameOf u) data s2), c2,
            map_option Collab (snd (ExecuteTemplate env (template u) (execNameOf u) data s2)))
       \<and> (ExecuteTemplate env (template u) (execNameOf u) data s1
            = ExecuteTemplate env (template u) (execNameOf u) data s2 \<longrightarrow>
          (\<exists>out e. Render env t w1 nm data s1 c1 = (t, w1 @ out, c1, e)
             \<and> Render env (fst (Render env t w1 nm data s1 c1)) w2 nm data s2 c2
                 = (t, w2 @ out, c2, e)))"
proof -
  have first: "Render env t w1 nm data s1 c1 =
           (t, w1 @ fst (ExecuteTemplate env (template u) (execNameOf u) data s1), c1,
            map_option Collab (snd (ExecuteTemplate env (template u) (execNameOf u) data s1)))"
    using assms by (simp add: Render_found split: prod.splits)
  have second: "Render env (fst (Render env t w1 nm data s1 c1)) w2 nm data s2 c2 =
           (t, w2 @ fst (ExecuteTemplate env (template u) (execNameOf u) data s2), c2,
            map_option Collab (snd (ExecuteTemplate env (template u) (execNameOf u) data s2)))"
    using assms by (simp add: Render_registry Render_found split: prod.splits)
  have same: "\<exists>out e. Render env t w1 nm data s1 c1 = (t, w1 @ out, c1, e)
             \<and> Render env (fst (Render env t w1 nm data s1 c1)) w2 nm data s2 c2
                 = (t, w2 @ out, c2, e)"
    if eq: "ExecuteTemplate env (template u) (execNameOf u) data s1
            = ExecuteTemplate env (template u) (execNameOf u) data s2"
  proof (intro exI conjI)
    show "Render env t w1 nm data s1 c1 =
           (t, w1 @ fst (ExecuteTemplate env (template u) (execNameOf u) data s1), c1,
            map_option Collab (snd (ExecuteTemplate env (template u) (execNameOf u) data s1)))"
      by (rule first)
    show "Render env (fst (Render env t w1 nm data s1 c1)) w2 nm data s2 c2 =
           (t, w2 @ fst (ExecuteTemplate env (template u) (execNameOf u) data s1), c2,
            map_option Collab (snd (ExecuteTemplate env (template u) (execNameOf u) data s1)))"
      unfolding eq by (rule second)
  qed
  from first second same show ?thesis by blast
qed

theorem Render_twice_witness:
  "templates (fst (Add example_env New example_fs [''fragments/*.html''])) ''data.html''
     = Some \<lparr>layout = [], name = ''data.html'', template = (''data.html'', [''fragments/data.html''])\<rparr>
   \<and> Render example_env (fst (Add example_env New example_fs [''fragments/*.html'']))
        ''first: '' ''data.html'' ''nil'' noon (200, False)
       = (fst (Add example_env New example_fs [''fragments/*.html'']), ''first: data.html 12:00:00'',
          (200, False), None)
   \<and> Render example_env
        (fst (Render example_env (fst (Add example_env New example_fs [''fragments/*.html'']))
                ''first: '' ''data.html'' ''nil'' noon (200, False)))
        ''second: '' ''data.html'' ''nil'' afternoon (200, True)
       = (fst (Add example_env New example_fs [''fragments/*.html'']), ''second: data.html 15:04:05'',
          (200, True), None)
   \<and> (\<exists>out e.
         Render example_env (fst (Add example_env New example_fs [''fragments/*.html'']))
           ''first: '' ''data.html'' ''nil'' noon (200, False)
           = (fst (Add example_env New example_fs [''fragments/*.html'']), ''first: '' @ out, (200, False), e)
       \<and> Render example_env
           (fst (Render example_env (fst (Add example_env New example_fs [''fragments/*.html'']))
                   ''first: '' ''data.html'' ''nil'' noon (200, False)))
           ''second: '' ''data.html'' ''nil'' noon (200, True)
           = (fst (Add example_env New example_fs [''fragments/*.html'']), ''second: '' @ out, (200, True), e))"
proof -
  let ?u = "\<lparr>layout = [], name = ''data.html'', template = (''data.html'', [''fragments/data.html''])\<rparr>"
  have h: "templates (fst (Add example_env New example_fs [''fragments/*.html''])) ''data.html'' = Some ?u"
    by (simp add: example_fragments)
  have at_noon: "ExecuteTemplate example_env tmpl entry ''nil'' noon = (entry @ '' 12:00:00'', None)"
    for tmpl entry
    by (simp add: example_defs getTime_def twoDigits_def noon_def)
  have later: "ExecuteTemplate example_env tmpl entry ''nil'' afternoon = (entry @ '' 15:04:05'', None)"
    for tmpl entry
    by (simp add: example_defs getTime_def twoDigits_def afternoon_def)
  note differ = Render_twice [OF h, of example_env "''first: ''" "''nil''" noon "(200, False)"
      "''second: ''" afternoon "(200, True)"]
  note same = Render_twice [OF h, of example_env "''first: ''" "''nil''" noon "(200, False)"
      "''second: ''" noon "(200, True)"]
  have r1: "Render example_env (fst (Add example_env New example_fs [''fragments/*.html'']))
        ''first: '' ''data.html'' ''nil'' noon (200, False)
       = (fst (Add example_env New example_fs [''fragments/*.html'']), ''first: data.html 12:00:00'',
          (200, False), None)"
    using differ [THEN conjunct1] by (simp add: at_noon execNameOf_def)
  have r2: "Render example_env
        (fst (Render example_env (fst (Add example_env New example_fs [''fragments/*.html'']))
                ''first: '' ''data.html'' ''nil'' noon (200, False)))
        ''second: '' ''data.html'' ''nil'' afternoon (200, True)
       = (fst (Add example_env New example_fs [''fragments/*.html'']), ''second: data.html 15:04:05'',
          (200, True), None)"
    using differ [THEN conjunct2, THEN conjunct1] by (simp add: later execNameOf_def)
  have r3: "\<exists>out e.
         Render example_env (fst (Add example_env New example_fs [''fragments/*.html'']))
           ''first: '' ''data.html'' ''nil'' noon (200, False)
           = (fst (Add example_env New example_fs [''fragments/*.html'']), ''first: '' @ out, (200, False), e)
       \<and> Render example_env
           (fst (Render example_env (fst (Add example_env New example_fs [''fragments/*.html'']))
                   ''first: '' ''data.html'' ''nil'' noon (200, False)))
           ''second: '' ''data.html'' ''nil'' noon (200, True)
           = (fst (Add example_env New example_fs [''fragments/*.html'']), ''second: '' @ out, (200, True), e)"
    by (rule same [THEN conjunct2, THEN conjunct2, THEN mp]) (rule refl)
  from h r1 r2 r3 show ?thesis by (intro conjI)
qed

text \<open>
  Claim C8 as stated fails: it says that two calls with the same registered name and
  the same data write identical bytes unless a function depends on the time. The
  registry has \<^verbatim>\<open>data.html\<close> registered with the caller's function \<^verbatim>\<open>nextID\<close>.
  Two calls of \<^verbatim>\<open>Render\<close> for \<^verbatim>\<open>data.html\<close> with the same data and at the same
  reading of the clock, the second on the registry the first has left, write different
  bytes: the first finds the number 0 issued last, the second the number 1.
\<close>

theorem Render_counter_function_counterexample:
  "map_option name (templates counting_registry ''data.html'') = Some ''data.html''
   \<and> Render counter_env counting_registry [] ''data.html'' ''nil'' \<lparr>Clock = noon, Issued = 0\<rparr> (200, False)
       = (counting_registry, ''data.html 00'', (200, False), None)
   \<and> Render counter_env
        (fst (Render counter_env counting_registry [] ''data.html'' ''nil'' \<lparr>Clock = noon, Issued = 0\<rparr>
                (200, False)))
        [] ''data.html'' ''nil'' \<lparr>Clock = noon, Issued = 1\<rparr> (200, False)
       = (counting_registry, ''data.html 01'', (200, False), None)
   \<and> ''data.html 00'' \<noteq> ''data.html 01''"
proof -
  let ?u = "\<lparr>layout = [], name = ''data.html'',
             template = ([''nextID'' \<mapsto> nextID], [''fragments/data.html''])\<rparr>"
  have unit: "templates counting_registry ''data.html'' = Some ?u"
    by (simp add: counting_registry_def Add_def readFileNames_def NewWithTemplateFuncs_def
        counter_env_def counter_ParseFS_def example_Glob_def example_fs_def path_Base_eval)
  have run: "ExecuteTemplate counter_env ([''nextID'' \<mapsto> nextID], patterns) entry ''nil''
                 \<lparr>Clock = noon, Issued = n\<rparr>
               = (entry @ '' '' @ twoDigits n, None)" for patterns entry n
    by (simp add: counter_env_def counter_ExecuteTemplate_def nextID_def)
  have digits: "twoDigits 0 = ''00''" "twoDigits 1 = ''01''" "twoDigits (Suc 0) = ''01''"
    by (simp_all add: twoDigits_def)
  have r1: "Render counter_env counting_registry [] ''data.html'' ''nil'' \<lparr>Clock = noon, Issued = 0\<rparr>
              (200, False) = (counting_registry, ''data.html 00'', (200, False), None)"
    by (simp add: Render_found [OF unit] run digits execNameOf_def)
  have r2: "Render counter_env
        (fst (Render counter_env counting_registry [] ''data.html'' ''nil'' \<lparr>Clock = noon, Issued = 0\<rparr>
                (200, False)))
        [] ''data.html'' ''nil'' \<lparr>Clock = noon, Issued = 1\<rparr> (200, False)
       = (counting_registry, ''data.html 01'', (200, False), None)"
    by (simp add: Render_registry Render_found [OF unit] run digits execNameOf_def)
  have registered: "map_option name (templates counting_registry ''data.html'') = Some ''data.html''"
    by (simp add: unit)
  have "''data.html 00'' \<noteq> ''data.html 01''"
    by simp
  with registered r1 r2 show ?thesis by (intro conjI)
qed

section \<open>Registered units and their entry point\<close>

lemma register_loop_new_unit:
  assumes "templates (fst (register_loop env t fsys lname extra fs)) k = Some u"
    and "templates t k \<noteq> Some u"
  shows "layout u = lname \<and> name u = k \<and> (\<exists>f\<in>set fs. k = path_Base f)"
  using register_loop_provenance [OF assms(1) refl] assms(2) by blast

lemma register_loop_registered:
  "snd (register_loop env t fsys lname extra fs) = None \<Longrightarrow> f \<in> set fs \<Longrightarrow>
     \<exists>u. templates (fst (register_loop env t fsys lname extra fs)) (path_Base f) = Some u
        \<and> layout u = lname \<and> name u = path_Base f"
proof (induction fs arbitrary: t f)
  case Nil
  then show ?case by simp
next
  case (Cons g fs)
  from Cons.prems(1) obtain tmp where
    parse: "ParseFS env (templateFuncs t) (path_Base g) fsys (extra @ [g]) = Inr tmp"
    by (cases "ParseFS env (templateFuncs t) (path_Base g) fsys (extra @ [g])") simp_all
  define t' where
    "t' = t\<lparr>templates := (templates t)(path_Base g \<mapsto> \<lparr>layout = lname, name = path_Base g, template = tmp\<rparr>)\<rparr>"
  have step: "register_loop env t fsys lname extra (g # fs) = register_loop env t' fsys lname extra fs"
    using parse by (simp add: t'_def)
  have ok: "snd (register_loop env t' fsys lname extra fs) = None"
    using Cons.prems(1) step by simp
  show ?case
  proof (cases "path_Base f \<in> path_Base ` set fs")
    case True
    then obtain f' where "f' \<in> set fs" and "path_Base f' = path_Base f" by auto
    with Cons.IH [OF ok, of f'] step show ?thesis by auto
  next
    case False
    with Cons.prems(2) have "f = g" by auto
    with False step show ?thesis
      by (simp add: register_loop_untouched t'_def)
  qed
qed

lemma Render_entry_point:
  assumes "templates t k = Some u" and "layout u = lname" and "name u = k"
  shows "Render env t w k data now c =
           (case ExecuteTemplate env (template u) (if lname \<noteq> [] then lname else k) data now of
              (out, e) \<Rightarrow> (t, w @ out, c, map_option Collab e))"
  using assms by (simp add: Render_found execNameOf_def)

text \<open>What each method stores, in terms of the field \<^verbatim>\<open>layout\<close>.\<close>

lemma Add_new_unit:
  assumes "templates (fst (Add env t fsys patterns)) k = Some u" and "templates t k \<noteq> Some u"
  shows "layout u = [] \<and> name u = k \<and> (\<exists>f. k = path_Base f)"
proof (cases "readFileNames env fsys patterns")
  case (Inl err)
  with assms show ?thesis by (simp add: Add_register)
next
  case (Inr filenames)
  with assms register_loop_new_unit [of env t fsys "[]" "[]" filenames k u]
  show ?thesis by (auto simp: Add_register)
qed

lemma AddWithLayout_new_unit:
  assumes "templates (fst (AddWithLayout env t fsys lay patterns)) k = Some u"
    and "templates t k \<noteq> Some u"
  shows "layout u = path_Base lay \<and> name u = k \<and> (\<exists>f. k = path_Base f)"
proof (cases "readFileNames env fsys patterns")
  case (Inl err)
  with assms show ?thesis by (simp add: AddWithLayout_register)
next
  case (Inr filenames)
  with assms register_loop_new_unit [of env t fsys "path_Base lay" "[lay]" filenames k u]
  show ?thesis by (auto simp: AddWithLayout_register)
qed

lemma AddWithLayoutAndIncludes_new_unit:
  assumes "templates (fst (AddWithLayoutAndIncludes env t fsys lay inc patterns)) k = Some u"
    and "templates t k \<noteq> Some u"
  shows "layout u = path_Base lay \<and> name u = k \<and> (\<exists>f. k = path_Base f)"
proof (cases "readFileNames env fsys patterns")
  case (Inl err)
  with assms show ?thesis by (simp add: AddWithLayoutAndIncludes_register)
next
  case (Inr filenames)
  with assms register_loop_new_unit [of env t fsys "path_Base lay" "[lay, inc]" filenames k u]
  show ?thesis by (auto simp: AddWithLayoutAndIncludes_register)
qed

text \<open>
  Claim C4. Take the registry after a call of a registration method and a unit \<open>u\<close>
  that it holds under the key \<open>k\<close> and that the registry before the call did not hold
  there. After \<^verbatim>\<open>AddWithLayout\<close> and after \<^verbatim>\<open>AddWithLayoutAndIncludes\<close> the field
  \<^verbatim>\<open>layout\<close> of \<open>u\<close> is the base name of the layout argument, and \<^verbatim>\<open>Render\<close> of
  \<open>k\<close> runs the unit's template from that name. After \<^verbatim>\<open>Add\<close> the field is empty,
  \<open>k\<close> is the base name of a file, and \<^verbatim>\<open>Render\<close> of \<open>k\<close> runs the template from
  \<open>k\<close>. In all three the field \<^verbatim>\<open>name\<close> is \<open>k\<close>. The last part says that a call
  without error has such a unit for every file its patterns matched.
\<close>

theorem unit_layout_and_entry_point:
  "(templates (fst (AddWithLayout env t fsys lay patterns)) k = Some u \<and> templates t k \<noteq> Some u \<longrightarrow>
      layout u = path_Base lay \<and> name u = k
      \<and> Render env (fst (AddWithLayout env t fsys lay patterns)) w k data now c =
          (case ExecuteTemplate env (template u) (path_Base lay) data now of
             (out, e) \<Rightarrow> (fst (AddWithLayout env t fsys lay patterns), w @ out, c, map_option Collab e)))
   \<and> (templates (fst (AddWithLayoutAndIncludes env t fsys lay inc patterns)) k = Some u
        \<and> templates t k \<noteq> Some u \<longrightarrow>
      layout u = path_Base lay \<and> name u = k
      \<and> Render env (fst (AddWithLayoutAndIncludes env t fsys lay inc patterns)) w k data now c =
          (case ExecuteTemplate env (template u) (path_Base lay) data now of
             (out, e) \<Rightarrow> (fst (AddWithLayoutAndIncludes env t fsys lay inc patterns), w @ out, c,
                           map_option Collab e)))
   \<and> (templates (fst (Add env t fsys patterns)) k = Some u \<and> templates t k \<noteq> Some u \<longrightarrow>
      layout u = [] \<and> name u = k \<and> (\<exists>f. k = path_Base f)
      \<and> Render env (fst (Add env t fsys patterns)) w k data now c =
          (case ExecuteTemplate env (template u) k data now of
             (out, e) \<Rightarrow> (fst (Add env t fsys patterns), w @ out, c, map_option Collab e)))
   \<and> (readFileNames env fsys patterns = Inr filenames \<and> f \<in> set filenames \<longrightarrow>
        (snd (AddWithLayout env t fsys lay patterns) = None \<longrightarrow>
           (\<exists>v. templates (fst (AddWithLayout env t fsys lay patterns)) (path_Base f) = Some v
               \<and> layout v = path_Base lay \<and> name v = path_Base f))
      \<and> (snd (AddWithLayoutAndIncludes env t fsys lay inc patterns) = None \<longrightarrow>
           (\<exists>v. templates (fst (AddWithLayoutAndIncludes env t fsys lay inc patterns)) (path_Base f) = Some v
               \<and> layout v = path_Base lay \<and> name v = path_Base f))
      \<and> (snd (Add env t fsys patterns) = None \<longrightarrow>
           (\<exists>v. templates (fst (Add env t fsys patterns)) (path_Base f) = Some v
               \<and> layout v = [] \<and> name v = path_Base f)))"
proof (intro conjI impI)
  assume a: "templates (fst (AddWithLayout env t fsys lay patterns)) k = Some u \<and> templates t k \<noteq> Some u"
  then have new: "layout u = path_Base lay \<and> name u = k"
    using AddWithLayout_new_unit [of env t fsys lay patterns k u] by blast
  from new show "layout u = path_Base lay" by simp
  from new show "name u = k" by simp
  from a new Render_entry_point [of "fst (AddWithLayout env t fsys lay patterns)" k u "path_Base lay"]
  show "Render env (fst (AddWithLayout env t fsys lay patterns)) w k data now c =
          (case ExecuteTemplate env (template u) (path_Base lay) data now of
             (out, e) \<Rightarrow> (fst (AddWithLayout env t fsys lay patterns), w @ out, c, map_option Collab e))"
    by (simp add: path_Base_nonempty)
next
  assume a: "templates (fst (AddWithLayoutAndIncludes env t fsys lay inc patterns)) k = Some u
        \<and> templates t k \<noteq> Some u"
  then have new: "layout u = path_Base lay \<and> name u = k"
    using AddWithLayoutAndIncludes_new_unit [of env t fsys lay inc patterns k u] by blast
  from new show "layout u = path_Base lay" by simp
  from new show "name u = k" by simp
  from a new Render_entry_point [of "fst (AddWithLayoutAndIncludes env t fsys lay inc patterns)" k u "path_Base lay"]
  show "Render env (fst (AddWithLayoutAndIncludes env t fsys lay inc patterns)) w k data now c =
          (case ExecuteTemplate env (template u) (path_Base lay) data now of
             (out, e) \<Rightarrow> (fst (AddWithLayoutAndIncludes env t fsys lay inc patterns), w @ out, c,
                           map_option Collab e))"
    by (simp add: path_Base_nonempty)
next
  assume a: "templates (fst (Add env t fsys patterns)) k = Some u \<and> templates t k \<noteq> Some u"
  then have new: "layout u = [] \<and> name u = k \<and> (\<exists>f. k = path_Base f)"
    using Add_new_unit [of env t fsys patterns k u] by blast
  from new show "layout u = []" by simp
  from new show "name u = k" by simp
  from new show "\<exists>f. k = path_Base f" by simp
  from a new Render_entry_point [of "fst (Add env t fsys patterns)" k u "[]"]
  show "Render env (fst (Add env t fsys patterns)) w k data now c =
          (case ExecuteTemplate env (template u) k data now of
             (out, e) \<Rightarrow> (fst (Add env t fsys patterns), w @ out, c, map_option Collab e))"
    by simp
next
  assume "readFileNames env fsys patterns = Inr filenames \<and> f \<in> set filenames"
    and "snd (AddWithLayout env t fsys lay patterns) = None"
  then show "\<exists>v. templates (fst (AddWithLayout env t fsys lay patterns)) (path_Base f) = Some v
               \<and> layout v = path_Base lay \<and> name v = path_Base f"
    using register_loop_registered [of env t fsys "path_Base lay" "[lay]" filenames f]
    by (simp add: AddWithLayout_register)
next
  assume "readFileNames env fsys patterns = Inr filenames \<and> f \<in> set filenames"
    and "snd (AddWithLayoutAndIncludes env t fsys lay inc patterns) = None"
  then show "\<exists>v. templates (fst (AddWithLayoutAndIncludes env t fsys lay inc patterns)) (path_Base f) = Some v
               \<and> layout v = path_Base lay \<and> name v = path_Base f"
    using register_loop_registered [of env t fsys "path_Base lay" "[lay, inc]" filenames f]
    by (simp add: AddWithLayoutAndIncludes_register)
next
  assume "readFileNames env fsys patterns = Inr filenames \<and> f \<in> set filenames"
    and "snd (Add env t fsys patterns) = None"
  then show "\<exists>v. templates (fst (Add env t fsys patterns)) (path_Base f) = Some v
               \<and> layout v = [] \<and> name v = path_Base f"
    using register_loop_registered [of env t fsys "[]" "[]" filenames f]
    by (simp add: Add_register)
qed

lemma example_pages_layout:
  "AddWithLayout example_env New example_fs ''views/layout.html'' [''pages/*.html'']
     = (\<lparr>templates =
           [''index.html'' \<mapsto>
              \<lparr>layout = ''layout.html'', name = ''index.html'',
               template = (''index.html'', [''views/layout.html'', ''pages/index.html''])\<rparr>,
            ''about.html'' \<mapsto>
              \<lparr>layout = ''layout.html'', name = ''about.html'',
               template = (''about.html'', [''views/layout.html'', ''pages/about.html''])\<rparr>],
         templateFuncs = defaultTemplateFuncs\<rparr>, None)"
  by (simp add: AddWithLayout_def readFileNames_def New_def example_defs path_Base_eval)

lemma example_pages_includes:
  "AddWithLayoutAndIncludes example_env New example_fs ''views/layout.html'' ''includes/*.html''
       [''pages/*.html'']
     = (\<lparr>templates =
           [''index.html'' \<mapsto>
              \<lparr>layout = ''layout.html'', name = ''index.html'',
               template = (''index.html'', [''views/layout.html'', ''includes/*.html'', ''pages/index.html''])\<rparr>,
            ''about.html'' \<mapsto>
              \<lparr>layout = ''layout.html'', name = ''about.html'',
               template = (''about.html'', [''views/layout.html'', ''includes/*.html'', ''pages/about.html''])\<rparr>],
         templateFuncs = defaultTemplateFuncs\<rparr>, None)"
  by (simp add: AddWithLayoutAndIncludes_def readFileNames_def New_def example_defs path_Base_eval)

lemma example_execute:
  "data \<noteq> ''bad'' \<Longrightarrow>
     ExecuteTemplate example_env tmpl execName data noon = (execName @ '' 12:00:00'', None)"
  by (simp add: example_defs getTime_def twoDigits_def noon_def)

theorem unit_layout_and_entry_point_witness:
  "templates (fst (AddWithLayout example_env New example_fs ''views/layout.html'' [''pages/*.html'']))
       ''index.html''
     = Some \<lparr>layout = ''layout.html'', name = ''index.html'',
             template = (''index.html'', [''views/layout.html'', ''pages/index.html''])\<rparr>
   \<and> Render example_env
        (fst (AddWithLayout example_env New example_fs ''views/layout.html'' [''pages/*.html'']))
        [] ''index.html'' ''nil'' noon (200, False)
       = (fst (AddWithLayout example_env New example_fs ''views/layout.html'' [''pages/*.html'']),
          ''layout.html 12:00:00'', (200, False), None)
   \<and> templates (fst (AddWithLayoutAndIncludes example_env New example_fs ''views/layout.html''
                       ''includes/*.html'' [''pages/*.html''])) ''index.html''
     = Some \<lparr>layout = ''layout.html'', name = ''index.html'',
             template = (''index.html'', [''views/layout.html'', ''includes/*.html'', ''pages/index.html''])\<rparr>
   \<and> Render example_env
        (fst (AddWithLayoutAndIncludes example_env New example_fs ''views/layout.html''
                ''includes/*.html'' [''pages/*.html'']))
        [] ''index.html'' ''nil'' noon (200, False)
       = (fst (AddWithLayoutAndIncludes example_env New example_fs ''views/layout.html''
                 ''includes/*.html'' [''pages/*.html'']),
          ''layout.html 12:00:00'', (200, False), None)
   \<and> templates (fst (Add example_env New example_fs [''fragments/*.html''])) ''data.html''
     = Some \<lparr>layout = [], name = ''data.html'', template = (''data.html'', [''fragments/data.html''])\<rparr>
   \<and> Render example_env (fst (Add example_env New example_fs [''fragments/*.html'']))
        [] ''data.html'' ''nil'' noon (200, False)
       = (fst (Add example_env New example_fs [''fragments/*.html'']),
          ''data.html 12:00:00'', (200, False), None)
   \<and> readFileNames example_env example_fs [''pages/*.html''] = Inr [''pages/index.html'', ''pages/about.html'']
   \<and> snd (AddWithLayout example_env New example_fs ''views/layout.html'' [''pages/*.html'']) = None
   \<and> (\<exists>v. templates (fst (AddWithLayout example_env New example_fs ''views/layout.html'' [''pages/*.html'']))
              (path_Base ''pages/about.html'') = Some v
          \<and> layout v = path_Base ''views/layout.html'' \<and> name v = path_Base ''pages/about.html'')
   \<and> snd (AddWithLayoutAndIncludes example_env New example_fs ''views/layout.html'' ''includes/*.html''
            [''pages/*.html'']) = None
   \<and> (\<exists>v. templates (fst (AddWithLayoutAndIncludes example_env New example_fs ''views/layout.html''
                             ''includes/*.html'' [''pages/*.html'']))
              (path_Base ''pages/about.html'') = Some v
          \<and> layout v = path_Base ''views/layout.html'' \<and> name v = path_Base ''pages/about.html'')
   \<and> snd (Add example_env New example_fs [''pages/*.html'']) = None
   \<and> (\<exists>v. templates (fst (Add example_env New example_fs [''pages/*.html'']))
              (path_Base ''pages/about.html'') = Some v
          \<and> layout v = [] \<and> name v = path_Base ''pages/about.html'')"
proof -
  let ?u1 = "\<lparr>layout = ''layout.html'', name = ''index.html'',
             template = (''index.html'', [''views/layout.html'', ''pages/index.html''])\<rparr>"
  let ?u2 = "\<lparr>layout = ''layout.html'', name = ''index.html'',
             template = (''index.html'', [''views/layout.html'', ''includes/*.html'', ''pages/index.html''])\<rparr>"
  let ?u3 = "\<lparr>layout = [], name = ''data.html'', template = (''data.html'', [''fragments/data.html''])\<rparr>"
  have base: "path_Base ''views/layout.html'' = ''layout.html''"
    by (simp add: path_Base_eval)
  have new: "templates New k \<noteq> Some u" for k and u :: "(string \<times> string list) Template"
    by (simp add: New_def)
  have ex: "ExecuteTemplate example_env tmpl execName ''nil'' noon = (execName @ '' 12:00:00'', None)"
    for tmpl execName
    by (simp add: example_execute)
  have a1: "templates (fst (AddWithLayout example_env New example_fs ''views/layout.html'' [''pages/*.html'']))
       ''index.html'' = Some ?u1"
    by (simp add: example_pages_layout)
  have a2: "templates (fst (AddWithLayoutAndIncludes example_env New example_fs ''views/layout.html''
                       ''includes/*.html'' [''pages/*.html''])) ''index.html'' = Some ?u2"
    by (simp add: example_pages_includes)
  have a3: "templates (fst (Add example_env New example_fs [''fragments/*.html''])) ''data.html'' = Some ?u3"
    by (simp add: example_fragments)
  have files: "readFileNames example_env example_fs [''pages/*.html'']
                 = Inr [''pages/index.html'', ''pages/about.html'']"
    by (simp add: readFileNames_def example_defs)
  have mem: "''pages/about.html'' \<in> set [''pages/index.html'', ''pages/about.html'']"
    by simp
  have s1: "snd (AddWithLayout example_env New example_fs ''views/layout.html'' [''pages/*.html'']) = None"
    by (simp add: example_pages_layout)
  have s2: "snd (AddWithLayoutAndIncludes example_env New example_fs ''views/layout.html'' ''includes/*.html''
            [''pages/*.html'']) = None"
    by (simp add: example_pages_includes)
  have s3: "snd (Add example_env New example_fs [''pages/*.html'']) = None"
    by (simp add: Add_def readFileNames_def New_def example_defs path_Base_eval)
  have r1: "Render example_env
        (fst (AddWithLayout example_env New example_fs ''views/layout.html'' [''pages/*.html'']))
        [] ''index.html'' ''nil'' noon (200, False)
       = (fst (AddWithLayout example_env New example_fs ''views/layout.html'' [''pages/*.html'']),
          ''layout.html 12:00:00'', (200, False), None)"
    using unit_layout_and_entry_point
      [where env = example_env and t = New and fsys = example_fs and lay = "''views/layout.html''"
         and patterns = "[''pages/*.html'']" and k = "''index.html''" and u = ?u1 and w = "[]"
         and data = "''nil''" and now = noon and c = "(200, False)", THEN conjunct1] a1 new
    by (simp add: base ex)
  have r2: "Render example_env
        (fst (AddWithLayoutAndIncludes example_env New example_fs ''views/layout.html''
                ''includes/*.html'' [''pages/*.html'']))
        [] ''index.html'' ''nil'' noon (200, False)
       = (fst (AddWithLayoutAndIncludes example_env New example_fs ''views/layout.html''
                 ''includes/*.html'' [''pages/*.html'']),
          ''layout.html 12:00:00'', (200, False), None)"
    using unit_layout_and_entry_point
      [where env = example_env and t = New and fsys = example_fs and lay = "''views/layout.html''"
         and inc = "''includes/*.html''"
         and patterns = "[''pages/*.html'']" and k = "''index.html''" and u = ?u2 and w = "[]"
         and data = "''nil''" and now = noon and c = "(200, False)", THEN conjunct2, THEN conjunct1] a2 new
    by (simp add: base ex)
  have r3: "Render example_env (fst (Add example_env New example_fs [''fragments/*.html'']))
        [] ''data.html'' ''nil'' noon (200, False)
       = (fst (Add example_env New example_fs [''fragments/*.html'']),
          ''data.html 12:00:00'', (200, False), None)"
    using unit_layout_and_entry_point
      [where env = example_env and t = New and fsys = example_fs
         and patterns = "[''fragments/*.html'']" and k = "''data.html''" and u = ?u3 and w = "[]"
         and data = "''nil''" and now = noon and c = "(200, False)",
       THEN conjunct2, THEN conjunct2, THEN conjunct1] a3 new
    by (simp add: ex)
  note part = unit_layout_and_entry_point
      [where env = example_env and t = New and fsys = example_fs and lay = "''views/layout.html''"
         and inc = "''includes/*.html''" and patterns = "[''pages/*.html'']"
         and filenames = "[''pages/index.html'', ''pages/about.html'']" and f = "''pages/about.html''",
       THEN conjunct2, THEN conjunct2, THEN conjunct2]
  from part files mem s1 have e1:
    "\<exists>v. templates (fst (AddWithLayout example_env New example_fs ''views/layout.html'' [''pages/*.html'']))
              (path_Base ''pages/about.html'') = Some v
          \<and> layout v = path_Base ''views/layout.html'' \<and> name v = path_Base ''pages/about.html''"
    by blast
  from part files mem s2 have e2:
    "\<exists>v. templates (fst (AddWithLayoutAndIncludes example_env New example_fs ''views/layout.html''
                             ''includes/*.html'' [''pages/*.html'']))
              (path_Base ''pages/about.html'') = Some v
          \<and> layout v = path_Base ''views/layout.html'' \<and> name v = path_Base ''pages/about.html''"
    by blast
  from part files mem s3 have e3:
    "\<exists>v. templates (fst (Add example_env New example_fs [''pages/*.html'']))
              (path_Base ''pages/about.html'') = Some v
          \<and> layout v = [] \<and> name v = path_Base ''pages/about.html''"
    by blast
  show ?thesis
    using a1 r1 a2 r2 a3 r3 files s1 e1 s2 e2 s3 e3 by (intro conjI)
qed

section \<open>Registering a name again\<close>










section \<open>Construction and the function map\<close>

text \<open>The bytes that \<open>getTime\<close> prints: the ASCII digits of the clock and colons.\<close>

lemma digit_byte:
  fixes d :: nat
  assumes "d < 10"
  shows "of_char (''0123456789'' ! d) = 48 + d"
proof -
  from assms have "d = 0 \<or> d = 1 \<or> d = 2 \<or> d = 3 \<or> d = 4 \<or> d = 5 \<or> d = 6 \<or> d = 7 \<or> d = 8 \<or> d = 9"
    by arith
  then show ?thesis
    by (elim disjE) simp_all
qed

lemma twoDigits_bytes:
  "n < 100 \<Longrightarrow> map of_char (twoDigits n) = [48 + n div 10, 48 + n mod 10 :: nat]"
  by (simp add: twoDigits_def digit_byte)

lemma getTime_bytes:
  assumes "Hour clock < 24" and "Minute clock < 60" and "Second clock < 60"
  shows "map of_char (getTime clock) =
           [48 + Hour clock div 10, 48 + Hour clock mod 10, 58,
            48 + Minute clock div 10, 48 + Minute clock mod 10, 58,
            48 + Second clock div 10, 48 + Second clock mod 10 :: nat]"
  using assms by (simp add: getTime_def twoDigits_bytes)

text \<open>The registry that a method finds on the caller's map.\<close>

lemma deref_NewWithTemplateFuncs_ref:
  "deref heap (NewWithTemplateFuncs_ref r) = NewWithTemplateFuncs (heap r)"
  by (simp add: deref_def NewWithTemplateFuncs_ref_def NewWithTemplateFuncs_def)

lemma deref_mapassign:
  "deref (mapassign heap (ref_templateFuncs tr) k v) tr
     = (deref heap tr)\<lparr>templateFuncs := (templateFuncs (deref heap tr))(k \<mapsto> v)\<rparr>"
  by (simp add: deref_def mapassign_def)

lemma deref_mapassign_other:
  "r' \<noteq> ref_templateFuncs tr \<Longrightarrow> deref (mapassign heap r' k v) tr = deref heap tr"
  by (simp add: deref_def mapassign_def)

lemma register_loop_compiled_with:
  assumes "templates (fst (register_loop env t fsys lname extra fs)) k = Some u"
    and "templates t k \<noteq> Some u"
  shows "\<exists>f. k = path_Base f \<and> ParseFS env (templateFuncs t) k fsys (extra @ [f]) = Inr (template u)"
  using register_loop_provenance [OF assms(1) refl] assms(2) by blast

lemma registration_compiled_with:
  "(templates (fst (Add env t fsys patterns)) k = Some u \<and> templates t k \<noteq> Some u \<longrightarrow>
      (\<exists>f. k = path_Base f \<and> ParseFS env (templateFuncs t) k fsys [f] = Inr (template u)))
   \<and> (templates (fst (AddWithLayout env t fsys lay patterns)) k = Some u \<and> templates t k \<noteq> Some u \<longrightarrow>
      (\<exists>f. k = path_Base f \<and> ParseFS env (templateFuncs t) k fsys [lay, f] = Inr (template u)))
   \<and> (templates (fst (AddWithLayoutAndIncludes env t fsys lay inc patterns)) k = Some u
        \<and> templates t k \<noteq> Some u \<longrightarrow>
      (\<exists>f. k = path_Base f \<and> ParseFS env (templateFuncs t) k fsys [lay, inc, f] = Inr (template u)))"
proof (cases "readFileNames env fsys patterns")
  case (Inl err)
  then show ?thesis
    by (simp add: Add_register AddWithLayout_register AddWithLayoutAndIncludes_register)
next
  case (Inr filenames)
  with register_loop_compiled_with [of env t fsys "[]" "[]" filenames k u]
    register_loop_compiled_with [of env t fsys "path_Base lay" "[lay]" filenames k u]
    register_loop_compiled_with [of env t fsys "path_Base lay" "[lay, inc]" filenames k u]
  show ?thesis
    by (simp add: Add_register AddWithLayout_register AddWithLayoutAndIncludes_register)
qed

lemma registration_funcs:
  "templateFuncs (fst (Add env t fsys patterns)) = templateFuncs t
   \<and> templateFuncs (fst (AddWithLayout env t fsys lay patterns)) = templateFuncs t
   \<and> templateFuncs (fst (AddWithLayoutAndIncludes env t fsys lay inc patterns)) = templateFuncs t"
  by (cases "readFileNames env fsys patterns")
    (simp_all add: Add_register AddWithLayout_register AddWithLayoutAndIncludes_register
      register_loop_funcs)

text \<open>
  Claim C9, as amended. \<^verbatim>\<open>New\<close> gives a registry without units whose function map
  is \<^verbatim>\<open>defaultTemplateFuncs\<close>; that map defines \<^verbatim>\<open>getTime\<close>, which prints the
  hour, the minute and the second of the clock with two decimal digits each, separated
  by colons. \<^verbatim>\<open>NewWithTemplateFuncs\<close> gives a registry without units whose function
  map is the supplied map itself: a method called on it finds the contents that the map
  has at that time, at construction those supplied. No method of the package changes
  the function map, and every unit that a registration call adds holds the template
  that \<^verbatim>\<open>ParseFS\<close> returned for the contents the call found. An assignment of the
  caller to its map changes what the later calls find; an assignment to another map
  does not.
\<close>

theorem function_map_of_the_registry:
  "templates New = Map.empty \<and> templateFuncs New = defaultTemplateFuncs
   \<and> defaultTemplateFuncs ''getTime'' = Some getTime
   \<and> (Hour clock < 24 \<and> Minute clock < 60 \<and> Second clock < 60 \<longrightarrow>
        map of_char (getTime clock) =
          [48 + Hour clock div 10, 48 + Hour clock mod 10, 58,
           48 + Minute clock div 10, 48 + Minute clock mod 10, 58,
           48 + Second clock div 10, 48 + Second clock mod 10 :: nat])
   \<and> templates (NewWithTemplateFuncs funcs) = Map.empty
   \<and> templateFuncs (NewWithTemplateFuncs funcs) = funcs
   \<and> deref heap (NewWithTemplateFuncs_ref r) = NewWithTemplateFuncs (heap r)
   \<and> templateFuncs (fst (Add env t fsys patterns)) = templateFuncs t
   \<and> templateFuncs (fst (AddWithLayout env t fsys lay patterns)) = templateFuncs t
   \<and> templateFuncs (fst (AddWithLayoutAndIncludes env t fsys lay inc patterns)) = templateFuncs t
   \<and> templateFuncs (fst (Render env t w nm data now c)) = templateFuncs t
   \<and> (templates (fst (Add env t fsys patterns)) k = Some u \<and> templates t k \<noteq> Some u \<longrightarrow>
      (\<exists>f. k = path_Base f \<and> ParseFS env (templateFuncs t) k fsys [f] = Inr (template u)))
   \<and> (templates (fst (AddWithLayout env t fsys lay patterns)) k = Some u \<and> templates t k \<noteq> Some u \<longrightarrow>
      (\<exists>f. k = path_Base f \<and> ParseFS env (templateFuncs t) k fsys [lay, f] = Inr (template u)))
   \<and> (templates (fst (AddWithLayoutAndIncludes env t fsys lay inc patterns)) k = Some u
        \<and> templates t k \<noteq> Some u \<longrightarrow>
      (\<exists>f. k = path_Base f \<and> ParseFS env (templateFuncs t) k fsys [lay, inc, f] = Inr (template u)))
   \<and> deref (mapassign heap (ref_templateFuncs tr) key v) tr
       = (deref heap tr)\<lparr>templateFuncs := (templateFuncs (deref heap tr))(key \<mapsto> v)\<rparr>
   \<and> (r' \<noteq> ref_templateFuncs tr \<longrightarrow> deref (mapassign heap r' key v) tr = deref heap tr)"
proof -
  have c1: "templates New = Map.empty \<and> templateFuncs New = defaultTemplateFuncs
     \<and> defaultTemplateFuncs ''getTime'' = Some getTime"
    by (simp add: New_def defaultTemplateFuncs_def)
  have c2: "templates (NewWithTemplateFuncs funcs) = Map.empty
     \<and> templateFuncs (NewWithTemplateFuncs funcs) = funcs"
    by (simp add: NewWithTemplateFuncs_def)
  have c3: "templateFuncs (fst (Render env t w nm data now c)) = templateFuncs t"
    by (simp add: Render_registry)
  have c4: "Hour clock < 24 \<and> Minute clock < 60 \<and> Second clock < 60 \<longrightarrow>
        map of_char (getTime clock) =
          [48 + Hour clock div 10, 48 + Hour clock mod 10, 58,
           48 + Minute clock div 10, 48 + Minute clock mod 10, 58,
           48 + Second clock div 10, 48 + Second clock mod 10 :: nat]"
    using getTime_bytes [of clock] by blast
  note c5 = registration_funcs [of env t fsys patterns lay inc]
  note c6 = registration_compiled_with [of env t fsys patterns k u lay inc]
  have c7: "r' \<noteq> ref_templateFuncs tr \<longrightarrow> deref (mapassign heap r' key v) tr = deref heap tr"
    by (simp add: deref_mapassign_other)
  show ?thesis
    apply (intro conjI)
                    apply (rule c1 [THEN conjunct1])
                   apply (rule c1 [THEN conjunct2, THEN conjunct1])
                  apply (rule c1 [THEN conjunct2, THEN conjunct2])
                 apply (rule c4)
                apply (rule c2 [THEN conjunct1])
               apply (rule c2 [THEN conjunct2])
              apply (rule deref_NewWithTemplateFuncs_ref)
             apply (rule c5 [THEN conjunct1])
            apply (rule c5 [THEN conjunct2, THEN conjunct1])
           apply (rule c5 [THEN conjunct2, THEN conjunct2])
          apply (rule c3)
         apply (rule c6 [THEN conjunct1])
        apply (rule c6 [THEN conjunct2, THEN conjunct1])
       apply (rule c6 [THEN conjunct2, THEN conjunct2])
      apply (rule deref_mapassign)
    apply (rule c7)
    done
qed

lemma example_custom_funcs:
  "AddWithLayout example_env (NewWithTemplateFuncs [''getTime2'' \<mapsto> getTime]) example_fs
       ''layout2.html'' [''pages2/*.html'']
     = (\<lparr>templates =
           [''index2.html'' \<mapsto>
              \<lparr>layout = ''layout2.html'', name = ''index2.html'',
               template = (''index2.html'', [''layout2.html'', ''pages2/index2.html''])\<rparr>],
         templateFuncs = [''getTime2'' \<mapsto> getTime]\<rparr>, None)"
  by (simp add: AddWithLayout_def readFileNames_def NewWithTemplateFuncs_def example_defs path_Base_eval)

lemma example_without_getTime2:
  "funcs ''getTime2'' = None \<Longrightarrow>
     AddWithLayout example_env (NewWithTemplateFuncs funcs) example_fs ''layout2.html'' [''pages2/*.html'']
       = (NewWithTemplateFuncs funcs,
          Some (Wrap (Collab ''function getTime2 not defined'')
                  ''failed to parse template pages2/index2.html''))"
  by (simp add: AddWithLayout_def readFileNames_def NewWithTemplateFuncs_def example_defs path_Base_eval)

theorem function_map_of_the_registry_witness:
  "Hour afternoon < 24 \<and> Minute afternoon < 60 \<and> Second afternoon < 60
   \<and> map of_char (getTime afternoon) = [49, 53, 58, 48, 52, 58, 48, 53 :: nat]
   \<and> getTime afternoon = ''15:04:05''
   \<and> map of_char (getTime noon) = [49, 50, 58, 48, 48, 58, 48, 48 :: nat]
   \<and> getTime noon = ''12:00:00''
   \<and> templateFuncs (fst (AddWithLayout example_env (NewWithTemplateFuncs [''getTime2'' \<mapsto> getTime])
                          example_fs ''layout2.html'' [''pages2/*.html'']))
       = [''getTime2'' \<mapsto> getTime]
   \<and> templates (fst (AddWithLayout example_env (NewWithTemplateFuncs [''getTime2'' \<mapsto> getTime])
                      example_fs ''layout2.html'' [''pages2/*.html''])) ''index2.html''
       = Some \<lparr>layout = ''layout2.html'', name = ''index2.html'',
               template = (''index2.html'', [''layout2.html'', ''pages2/index2.html''])\<rparr>
   \<and> (\<exists>f. ''index2.html'' = path_Base f
          \<and> ParseFS example_env [''getTime2'' \<mapsto> getTime] ''index2.html'' example_fs [''layout2.html'', f]
              = Inr (''index2.html'', [''layout2.html'', ''pages2/index2.html'']))
   \<and> templates (fst (Add example_env New example_fs [''fragments/*.html''])) ''data.html''
       = Some \<lparr>layout = [], name = ''data.html'', template = (''data.html'', [''fragments/data.html''])\<rparr>
   \<and> (\<exists>f. ''data.html'' = path_Base f
          \<and> ParseFS example_env defaultTemplateFuncs ''data.html'' example_fs [f]
              = Inr (''data.html'', [''fragments/data.html'']))
   \<and> templates (fst (AddWithLayoutAndIncludes example_env New example_fs ''views/layout.html''
                       ''includes/*.html'' [''pages/*.html''])) ''index.html''
       = Some \<lparr>layout = ''layout.html'', name = ''index.html'',
               template = (''index.html'', [''views/layout.html'', ''includes/*.html'', ''pages/index.html''])\<rparr>
   \<and> (\<exists>f. ''index.html'' = path_Base f
          \<and> ParseFS example_env defaultTemplateFuncs ''index.html'' example_fs
                [''views/layout.html'', ''includes/*.html'', f]
              = Inr (''index.html'', [''views/layout.html'', ''includes/*.html'', ''pages/index.html'']))
   \<and> 2 \<noteq> ref_templateFuncs caller_registry
   \<and> templateFuncs (deref (mapassign empty_heap 2 ''getTime2'' getTime) caller_registry)
        ''getTime2'' = None
   \<and> templateFuncs (deref (mapassign empty_heap 1 ''getTime2'' getTime) caller_registry)
        ''getTime2'' = Some getTime"
proof -
  let ?new = "New :: (wallclock \<Rightarrow> string, string \<times> string list) TemplateRenderer"
  let ?custom = "NewWithTemplateFuncs [''getTime2'' \<mapsto> getTime]
                   :: (wallclock \<Rightarrow> string, string \<times> string list) TemplateRenderer"
  let ?u1 = "\<lparr>layout = ''layout2.html'', name = ''index2.html'',
               template = (''index2.html'', [''layout2.html'', ''pages2/index2.html''])\<rparr>"
  let ?u2 = "\<lparr>layout = ''layout.html'', name = ''index.html'',
             template = (''index.html'', [''views/layout.html'', ''includes/*.html'', ''pages/index.html''])\<rparr>"
  let ?u3 = "\<lparr>layout = [], name = ''data.html'', template = (''data.html'', [''fragments/data.html''])\<rparr>"
  have range1: "Hour afternoon < 24 \<and> Minute afternoon < 60 \<and> Second afternoon < 60"
    by (simp add: afternoon_def)
  have range2: "Hour noon < 24 \<and> Minute noon < 60 \<and> Second noon < 60"
    by (simp add: noon_def)
  have time1: "getTime afternoon = ''15:04:05''"
    by (simp add: getTime_def twoDigits_def afternoon_def)
  have time2: "getTime noon = ''12:00:00''"
    by (simp add: getTime_def twoDigits_def noon_def)
  have fresh: "templates ?custom k \<noteq> Some u" for k u
    by (simp add: NewWithTemplateFuncs_def)
  have fresh': "templates ?new k \<noteq> Some u" for k u
    by (simp add: New_def)
  have a1: "templates (fst (AddWithLayout example_env ?custom example_fs ''layout2.html'' [''pages2/*.html'']))
              ''index2.html'' = Some ?u1"
    by (simp add: example_custom_funcs)
  have a2: "templates (fst (AddWithLayoutAndIncludes example_env ?new example_fs ''views/layout.html''
                       ''includes/*.html'' [''pages/*.html''])) ''index.html'' = Some ?u2"
    by (simp add: example_pages_includes)
  have a3: "templates (fst (Add example_env ?new example_fs [''fragments/*.html''])) ''data.html'' = Some ?u3"
    by (simp add: example_fragments)
  note inst1 = function_map_of_the_registry
      [where clock = afternoon and funcs = "[''getTime2'' \<mapsto> getTime]"
         and env = example_env and t = ?custom and fsys = example_fs and lay = "''layout2.html''"
         and patterns = "[''pages2/*.html'']" and k = "''index2.html''" and u = ?u1
         and heap = empty_heap and tr = caller_registry and key = "''getTime2''" and v = getTime and r' = 2]
  note inst2 = function_map_of_the_registry
      [where clock = noon and env = example_env and t = ?new and fsys = example_fs
         and lay = "''views/layout.html''"
         and inc = "''includes/*.html''" and patterns = "[''pages/*.html'']" and k = "''index.html''"
         and u = ?u2]
  note inst3 = function_map_of_the_registry
      [where env = example_env and t = ?new and fsys = example_fs
         and patterns = "[''fragments/*.html'']" and k = "''data.html''" and u = ?u3]
  have "map of_char (getTime afternoon) =
          [48 + Hour afternoon div 10, 48 + Hour afternoon mod 10, 58,
           48 + Minute afternoon div 10, 48 + Minute afternoon mod 10, 58,
           48 + Second afternoon div 10, 48 + Second afternoon mod 10 :: nat]"
    by (rule inst1 [THEN conjunct2, THEN conjunct2, THEN conjunct2, THEN conjunct1, THEN mp]) (rule range1)
  then have bytes1: "map of_char (getTime afternoon) = [49, 53, 58, 48, 52, 58, 48, 53 :: nat]"
    by (simp add: afternoon_def)
  have "map of_char (getTime noon) =
          [48 + Hour noon div 10, 48 + Hour noon mod 10, 58,
           48 + Minute noon div 10, 48 + Minute noon mod 10, 58,
           48 + Second noon div 10, 48 + Second noon mod 10 :: nat]"
    by (rule inst2 [THEN conjunct2, THEN conjunct2, THEN conjunct2, THEN conjunct1, THEN mp]) (rule range2)
  then have bytes2: "map of_char (getTime noon) = [49, 50, 58, 48, 48, 58, 48, 48 :: nat]"
    by (simp add: noon_def)
  have "templateFuncs (fst (AddWithLayout example_env ?custom example_fs ''layout2.html''
                                        [''pages2/*.html''])) = templateFuncs ?custom"
    by (rule inst1 [THEN conjunct2, THEN conjunct2, THEN conjunct2, THEN conjunct2, THEN conjunct2, THEN conjunct2, THEN conjunct2, THEN conjunct2, THEN conjunct1])
  moreover have "templateFuncs ?custom = [''getTime2'' \<mapsto> getTime]"
    by (rule inst1 [THEN conjunct2, THEN conjunct2, THEN conjunct2, THEN conjunct2, THEN conjunct2, THEN conjunct1])
  ultimately have funcs: "templateFuncs (fst (AddWithLayout example_env ?custom example_fs ''layout2.html''
                                        [''pages2/*.html''])) = [''getTime2'' \<mapsto> getTime]"
    by simp
  have
    "templates (fst (AddWithLayout example_env ?custom example_fs ''layout2.html'' [''pages2/*.html'']))
        ''index2.html'' = Some ?u1 \<and> templates ?custom ''index2.html'' \<noteq> Some ?u1 \<longrightarrow>
     (\<exists>f. ''index2.html'' = path_Base f
         \<and> ParseFS example_env (templateFuncs ?custom) ''index2.html'' example_fs [''layout2.html'', f]
             = Inr (template ?u1))"
    by (rule inst1 [THEN conjunct2, THEN conjunct2, THEN conjunct2, THEN conjunct2, THEN conjunct2, THEN conjunct2, THEN conjunct2, THEN conjunct2, THEN conjunct2, THEN conjunct2, THEN conjunct2, THEN conjunct2, THEN conjunct1])
  with a1 fresh have p1: "\<exists>f. ''index2.html'' = path_Base f
          \<and> ParseFS example_env [''getTime2'' \<mapsto> getTime] ''index2.html'' example_fs [''layout2.html'', f]
              = Inr (''index2.html'', [''layout2.html'', ''pages2/index2.html''])"
    by (simp add: NewWithTemplateFuncs_def)
  have
    "templates (fst (AddWithLayoutAndIncludes example_env ?new example_fs ''views/layout.html''
                       ''includes/*.html'' [''pages/*.html''])) ''index.html'' = Some ?u2
       \<and> templates ?new ''index.html'' \<noteq> Some ?u2 \<longrightarrow>
     (\<exists>f. ''index.html'' = path_Base f
         \<and> ParseFS example_env (templateFuncs ?new) ''index.html'' example_fs
               [''views/layout.html'', ''includes/*.html'', f] = Inr (template ?u2))"
    by (rule inst2 [THEN conjunct2, THEN conjunct2, THEN conjunct2, THEN conjunct2, THEN conjunct2, THEN conjunct2, THEN conjunct2, THEN conjunct2, THEN conjunct2, THEN conjunct2, THEN conjunct2, THEN conjunct2, THEN conjunct2, THEN conjunct1])
  with a2 fresh' have p2: "\<exists>f. ''index.html'' = path_Base f
          \<and> ParseFS example_env defaultTemplateFuncs ''index.html'' example_fs
                [''views/layout.html'', ''includes/*.html'', f]
              = Inr (''index.html'', [''views/layout.html'', ''includes/*.html'', ''pages/index.html''])"
    by (simp add: New_def)
  have
    "templates (fst (Add example_env ?new example_fs [''fragments/*.html''])) ''data.html'' = Some ?u3
       \<and> templates ?new ''data.html'' \<noteq> Some ?u3 \<longrightarrow>
     (\<exists>f. ''data.html'' = path_Base f
         \<and> ParseFS example_env (templateFuncs ?new) ''data.html'' example_fs [f] = Inr (template ?u3))"
    by (rule inst3 [THEN conjunct2, THEN conjunct2, THEN conjunct2, THEN conjunct2, THEN conjunct2, THEN conjunct2, THEN conjunct2, THEN conjunct2, THEN conjunct2, THEN conjunct2, THEN conjunct2, THEN conjunct1])
  with a3 fresh' have p3: "\<exists>f. ''data.html'' = path_Base f
          \<and> ParseFS example_env defaultTemplateFuncs ''data.html'' example_fs [f]
              = Inr (''data.html'', [''fragments/data.html''])"
    by (simp add: New_def)
  have other: "2 \<noteq> ref_templateFuncs caller_registry"
    by (simp add: caller_registry_def NewWithTemplateFuncs_ref_def)
  have "deref (mapassign empty_heap 2 ''getTime2'' getTime) caller_registry = deref empty_heap caller_registry"
    by (rule inst1 [THEN conjunct2, THEN conjunct2, THEN conjunct2, THEN conjunct2, THEN conjunct2, THEN conjunct2, THEN conjunct2, THEN conjunct2, THEN conjunct2, THEN conjunct2, THEN conjunct2, THEN conjunct2, THEN conjunct2, THEN conjunct2, THEN conjunct2, THEN mp]) (rule other)
  then have h1: "templateFuncs (deref (mapassign empty_heap 2 ''getTime2'' getTime) caller_registry) ''getTime2'' = None"
    by (simp add: deref_def empty_heap_def)
  have own: "ref_templateFuncs caller_registry = 1"
    by (simp add: caller_registry_def NewWithTemplateFuncs_ref_def)
  have "deref (mapassign empty_heap (ref_templateFuncs caller_registry) ''getTime2'' getTime) caller_registry
       = (deref empty_heap caller_registry)\<lparr>templateFuncs := (templateFuncs (deref empty_heap caller_registry))(''getTime2'' \<mapsto> getTime)\<rparr>"
    by (rule inst1 [THEN conjunct2, THEN conjunct2, THEN conjunct2, THEN conjunct2, THEN conjunct2, THEN conjunct2, THEN conjunct2, THEN conjunct2, THEN conjunct2, THEN conjunct2, THEN conjunct2, THEN conjunct2, THEN conjunct2, THEN conjunct2, THEN conjunct1])
  then have "templateFuncs (deref (mapassign empty_heap (ref_templateFuncs caller_registry) ''getTime2'' getTime) caller_registry)
               ''getTime2'' = Some getTime"
    by simp
  then have h2: "templateFuncs (deref (mapassign empty_heap 1 ''getTime2'' getTime) caller_registry) ''getTime2''
                   = Some getTime"
    by (simp only: own)
  show ?thesis
    using range1 [THEN conjunct1] range1 [THEN conjunct2, THEN conjunct1]
      range1 [THEN conjunct2, THEN conjunct2]
      bytes1 time1 bytes2 time2 funcs a1 p1 a3 p3 a2 p2 other h1 h2
    by (intro conjI)
qed

text \<open>
  Claim C9 as stated fails: it says that the function set of the registry is fixed at
  construction. The caller's map is empty when
  \<^verbatim>\<open>NewWithTemplateFuncs\<close> receives it, and compiling \<^verbatim>\<open>pages2/index2.html\<close> with
  that set fails, as the file calls \<^verbatim>\<open>getTime2\<close>. After the caller has assigned
  \<^verbatim>\<open>getTime2\<close> to its map, \<^verbatim>\<open>AddWithLayout\<close> on the same registry finds the
  function and registers the file.
\<close>

theorem function_map_not_fixed_counterexample:
  "templateFuncs (deref empty_heap caller_registry) ''getTime2'' = None
   \<and> snd (AddWithLayout example_env (deref empty_heap caller_registry) example_fs
            ''layout2.html'' [''pages2/*.html''])
       = Some (Wrap (Collab ''function getTime2 not defined'') ''failed to parse template pages2/index2.html'')
   \<and> templateFuncs (deref (mapassign empty_heap 1 ''getTime2'' getTime) caller_registry)
        ''getTime2'' = Some getTime
   \<and> snd (AddWithLayout example_env (deref (mapassign empty_heap 1 ''getTime2'' getTime)
                                        caller_registry) example_fs
            ''layout2.html'' [''pages2/*.html'']) = None
   \<and> templates (fst (AddWithLayout example_env (deref (mapassign empty_heap 1 ''getTime2'' getTime)
                                                  caller_registry) example_fs
                       ''layout2.html'' [''pages2/*.html''])) ''index2.html''
       = Some \<lparr>layout = ''layout2.html'', name = ''index2.html'',
               template = (''index2.html'', [''layout2.html'', ''pages2/index2.html''])\<rparr>"
proof -
  have before: "deref empty_heap caller_registry = NewWithTemplateFuncs Map.empty"
    by (simp add: caller_registry_def deref_NewWithTemplateFuncs_ref empty_heap_def)
  have after: "deref (mapassign empty_heap 1 ''getTime2'' getTime) caller_registry
                 = NewWithTemplateFuncs [''getTime2'' \<mapsto> getTime]"
    by (simp add: caller_registry_def deref_NewWithTemplateFuncs_ref mapassign_def empty_heap_def)
  show ?thesis
    unfolding before after
    by (simp add: example_without_getTime2 example_custom_funcs) (simp add: NewWithTemplateFuncs_def)
qed

end
